theory Spec2Isabelle
  imports Complex_Main "HOL-Library.Word"
begin

section \<open>Go library functions the program calls\<close>

text \<open>
  The program is a Go command-line front end (\<^verbatim>\<open>main.go\<close> and the file holding
  \<^verbatim>\<open>extractAudio\<close>). Its own functions are embedded in the next section; this section
  models the functions of Go's standard library they call, each after the library's
  documentation and source. Go strings are byte sequences: \<^typ>\<open>string\<close>.
\<close>

subsection \<open>Package strings\<close>

definition HasSuffix :: "string \<Rightarrow> string \<Rightarrow> bool" where
  "HasSuffix s suffix =
     (length suffix \<le> length s \<and> drop (length s - length suffix) s = suffix)"

definition TrimSuffix :: "string \<Rightarrow> string \<Rightarrow> string" where
  "TrimSuffix s suffix =
     (if HasSuffix s suffix then take (length s - length suffix) s else s)"

text \<open>\<^verbatim>\<open>strings.Join(elems, sep)\<close>.\<close>

fun Join :: "string list \<Rightarrow> string \<Rightarrow> string" where
  "Join [] sep = []"
| "Join [e] sep = e"
| "Join (e # es) sep = e @ sep @ Join es sep"

text \<open>
  \<^verbatim>\<open>strings.Split(s, sep)\<close> for a separator of one byte, which is how the program calls
  it (\<^verbatim>\<open>":"\<close>): the pieces between the separators, one piece more than there are
  separators, so never an empty slice.
\<close>

fun Split :: "string \<Rightarrow> char \<Rightarrow> string list" where
  "Split [] sep = [[]]"
| "Split (c # cs) sep =
     (if c = sep then [] # Split cs sep
      else (c # hd (Split cs sep)) # tl (Split cs sep))"

text \<open>
  \<^verbatim>\<open>strings.ToLower\<close> on the ASCII letters. (On other runes Go applies Unicode's lower
  case; none of them maps to a byte of \<^verbatim>\<open>".mp3"\<close>, the only text the program compares
  a lower-cased string with.)
\<close>

definition toLower :: "char \<Rightarrow> char" where
  "toLower c =
     (case map_of (zip ''ABCDEFGHIJKLMNOPQRSTUVWXYZ'' ''abcdefghijklmnopqrstuvwxyz'') c of
        Some d \<Rightarrow> d
      | None \<Rightarrow> c)"

definition ToLower :: "string \<Rightarrow> string" where
  "ToLower s = map toLower s"

subsection \<open>Package strconv: Itoa\<close>

fun decimal :: "nat \<Rightarrow> string" where
  "decimal n =
     (if n < 10 then [''0123456789'' ! n]
      else decimal (n div 10) @ [''0123456789'' ! (n mod 10)])"

declare decimal.simps [simp del]

text \<open>
  \<^verbatim>\<open>strconv.Itoa\<close>. Go's \<^verbatim>\<open>int\<close> has the width of the platform; the program only
  prints the value, so it is an \<^typ>\<open>int\<close> here.
\<close>

definition Itoa :: "int \<Rightarrow> string" where
  "Itoa i = (if i < 0 then CHR ''-'' # decimal (nat (- i)) else decimal (nat i))"

subsection \<open>Package path/filepath: Ext\<close>

datatype goos = Unix | Windows

fun IsPathSeparator :: "goos \<Rightarrow> char \<Rightarrow> bool" where
  "IsPathSeparator Unix c = (c = CHR ''/'')"
| "IsPathSeparator Windows c = (c = CHR 0x5C \<or> c = CHR ''/'')"

text \<open>
  \<^verbatim>\<open>for i := len(path) - 1; i >= 0 && !os.IsPathSeparator(path[i]); i-- {
    if path[i] == '.' { return path[i:] } }
  return ""\<close>
  The counter of the model is \<open>i + 1\<close>.
\<close>

fun Ext_loop :: "goos \<Rightarrow> string \<Rightarrow> nat \<Rightarrow> string" where
  "Ext_loop os path 0 = []"
| "Ext_loop os path (Suc i) =
     (if IsPathSeparator os (path ! i) then []
      else if path ! i = CHR ''.'' then drop i path
      else Ext_loop os path i)"

definition Ext :: "goos \<Rightarrow> string \<Rightarrow> string" where
  "Ext os path = Ext_loop os path (length path)"

subsection \<open>The type float64\<close>

text \<open>
  A float64 is a finite binary64 number (the rational it denotes; \<open>Finite 0\<close> is \<open>+0\<close>),
  the negative zero, an infinity or a NaN. Arithmetic rounds to nearest, ties to even,
  as the hardware does.
\<close>

datatype float64 = Finite rat | NegZero | PosInf | NegInf | NaN

definition round_half_even :: "rat \<Rightarrow> int" where
  "round_half_even x =
     (let f = \<lfloor>x\<rfloor>; r = x - of_int f
      in if r < 1 / 2 then f else if 1 / 2 < r then f + 1 else if even f then f else f + 1)"

fun bit_length :: "nat \<Rightarrow> nat" where
  "bit_length n = (if n = 0 then 0 else Suc (bit_length (n div 2)))"

declare bit_length.simps [simp del]

text \<open>\<open>\<lfloor>log\<^sub>2 a\<rfloor>\<close> for a positive rational \<open>a\<close>.\<close>

definition floor_log2 :: "rat \<Rightarrow> int" where
  "floor_log2 a =
     (if 1 \<le> a then int (bit_length (nat \<lfloor>a\<rfloor>)) - 1
      else - int (bit_length (nat (\<lceil>1 / a\<rceil> - 1))))"

text \<open>
  The binary64 number nearest to a rational \<open>q \<noteq> 0\<close>: 53 bits of mantissa, the least
  exponent \<open>-1022\<close> (below it the spacing stays \<open>2\<^sup>-\<^sup>1\<^sup>0\<^sup>7\<^sup>4\<close>), an infinity from \<open>2\<^sup>1\<^sup>0\<^sup>2\<^sup>4\<close> on,
  and a zero that keeps the sign.
\<close>

definition round64 :: "rat \<Rightarrow> float64" where
  "round64 q =
     (if q = 0 then Finite 0
      else
        let a = \<bar>q\<bar>;
            e = max (floor_log2 a) (- 1022);
            ulp = 2 powi (e - 52);
            m = of_int (round_half_even (a / ulp)) * ulp
        in if 2 ^ 1024 \<le> m then (if q < 0 then NegInf else PosInf)
           else if m = 0 then (if q < 0 then NegZero else Finite 0)
           else Finite (if q < 0 then - m else m))"

fun is_zero :: "float64 \<Rightarrow> bool" where
  "is_zero (Finite q) = (q = 0)"
| "is_zero NegZero = True"
| "is_zero _ = False"

fun is_inf :: "float64 \<Rightarrow> bool" where
  "is_inf PosInf = True"
| "is_inf NegInf = True"
| "is_inf _ = False"

fun sign_bit :: "float64 \<Rightarrow> bool" where
  "sign_bit (Finite q) = (q < 0)"
| "sign_bit NegZero = True"
| "sign_bit PosInf = False"
| "sign_bit NegInf = True"
| "sign_bit NaN = False"

fun value_of :: "float64 \<Rightarrow> rat" where
  "value_of (Finite q) = q"
| "value_of _ = 0"

definition signed_zero :: "bool \<Rightarrow> float64" where
  "signed_zero neg = (if neg then NegZero else Finite 0)"

definition signed_inf :: "bool \<Rightarrow> float64" where
  "signed_inf neg = (if neg then NegInf else PosInf)"

text \<open>The product \<^verbatim>\<open>x * y\<close> of two float64.\<close>

definition fmul :: "float64 \<Rightarrow> float64 \<Rightarrow> float64" where
  "fmul x y =
     (if x = NaN \<or> y = NaN then NaN
      else if is_inf x \<or> is_inf y then
        (if is_zero x \<or> is_zero y then NaN else signed_inf (sign_bit x \<noteq> sign_bit y))
      else if is_zero x \<or> is_zero y then signed_zero (sign_bit x \<noteq> sign_bit y)
      else round64 (value_of x * value_of y))"

text \<open>The sum \<^verbatim>\<open>x + y\<close> of two float64.\<close>

definition fadd :: "float64 \<Rightarrow> float64 \<Rightarrow> float64" where
  "fadd x y =
     (if x = NaN \<or> y = NaN then NaN
      else if is_inf x then (if is_inf y \<and> x \<noteq> y then NaN else x)
      else if is_inf y then y
      else if value_of x + value_of y = 0 then signed_zero (sign_bit x \<and> sign_bit y)
      else round64 (value_of x + value_of y))"

text \<open>The comparison \<^verbatim>\<open>x < y\<close> of two float64: false when either is a NaN.\<close>

fun extended :: "float64 \<Rightarrow> (int \<times> rat) option" where
  "extended (Finite q) = Some (0, q)"
| "extended NegZero = Some (0, 0)"
| "extended PosInf = Some (1, 0)"
| "extended NegInf = Some (- 1, 0)"
| "extended NaN = None"

definition fless :: "float64 \<Rightarrow> float64 \<Rightarrow> bool" where
  "fless x y =
     (case (extended x, extended y) of
        (Some (i, a), Some (j, b)) \<Rightarrow> i < j \<or> (i = j \<and> a < b)
      | _ \<Rightarrow> False)"

subsection \<open>Package strconv: ParseFloat\<close>

text \<open>
  \<^verbatim>\<open>strconv.ParseFloat(s, 64)\<close> returns a value and an error. It accepts the decimal and
  hexadecimal floating-point literals of Go (with underscores between digits) and the
  words \<^verbatim>\<open>inf\<close>, \<^verbatim>\<open>infinity\<close> and \<^verbatim>\<open>nan\<close> in any letter case, and returns the
  float64 nearest to the number written. A string that is not of this form gives
  \<^verbatim>\<open>(0, ErrSyntax)\<close>; a number too large for a float64 gives \<^verbatim>\<open>(\<plusminus>Inf, ErrRange)\<close>.
\<close>

datatype parse_error = ErrSyntax | ErrRange

definition is_digit :: "char \<Rightarrow> bool" where
  "is_digit c = (48 \<le> (of_char c :: nat) \<and> (of_char c :: nat) \<le> 57)"

definition digit_value :: "nat \<Rightarrow> char \<Rightarrow> nat option" where
  "digit_value base c =
     (let n = (of_char c :: nat)
      in if 48 \<le> n \<and> n \<le> 57 then Some (n - 48)
         else if base = 16 \<and> 97 \<le> n \<and> n \<le> 102 then Some (n - 87)
         else if base = 16 \<and> 65 \<le> n \<and> n \<le> 70 then Some (n - 55)
         else None)"

text \<open>\<^verbatim>\<open>special\<close>: the infinities and NaN by name.\<close>

definition special :: "string \<Rightarrow> float64 option" where
  "special s =
     (let l = ToLower s
      in if l = ''inf'' \<or> l = ''+inf'' \<or> l = ''infinity'' \<or> l = ''+infinity'' then Some PosInf
         else if l = ''-inf'' \<or> l = ''-infinity'' then Some NegInf
         else if l = ''nan'' then Some NaN
         else None)"

text \<open>
  The digits of the mantissa, with at most one point and with underscores skipped:
  the mantissa read so far as a natural number in the base, the number of digits after
  the point, whether a point, a digit and an underscore have been seen. The result is
  the state at the first byte that is no part of the mantissa, and the bytes from there.
\<close>

fun scan_mantissa ::
  "nat \<Rightarrow> string \<Rightarrow> nat \<Rightarrow> nat \<Rightarrow> bool \<Rightarrow> bool \<Rightarrow> bool \<Rightarrow> nat \<times> nat \<times> bool \<times> bool \<times> string"
where
  "scan_mantissa base [] m f dot dig us = (m, f, dig, us, [])"
| "scan_mantissa base (c # cs) m f dot dig us =
     (if c = CHR ''_'' then scan_mantissa base cs m f dot dig True
      else if c = CHR ''.'' then
        (if dot then (m, f, dig, us, c # cs) else scan_mantissa base cs m f True dig us)
      else
        (case digit_value base c of
           Some d \<Rightarrow> scan_mantissa base cs (m * base + d) (if dot then Suc f else f) dot True us
         | None \<Rightarrow> (m, f, dig, us, c # cs)))"

text \<open>The digits of the exponent; the library stops adding digits from 10000 on.\<close>

fun scan_exponent :: "string \<Rightarrow> nat \<Rightarrow> bool \<Rightarrow> nat \<times> bool \<times> string" where
  "scan_exponent [] e us = (e, us, [])"
| "scan_exponent (c # cs) e us =
     (if c = CHR ''_'' then scan_exponent cs e True
      else if is_digit c then
        scan_exponent cs (if e < 10000 then e * 10 + ((of_char c :: nat) - 48) else e) us
      else (e, us, c # cs))"

text \<open>\<^verbatim>\<open>underscoreOK\<close>: an underscore stands between two digits, or a base prefix and a digit.\<close>

datatype saw = SawStart | SawDigit | SawUnderscore | SawOther

fun underscore_loop :: "bool \<Rightarrow> string \<Rightarrow> saw \<Rightarrow> bool" where
  "underscore_loop hex [] saw = (saw \<noteq> SawUnderscore)"
| "underscore_loop hex (c # cs) saw =
     (if digit_value (if hex then 16 else 10) c \<noteq> None then underscore_loop hex cs SawDigit
      else if c = CHR ''_'' then
        (if saw \<noteq> SawDigit then False else underscore_loop hex cs SawUnderscore)
      else if saw = SawUnderscore then False
      else underscore_loop hex cs SawOther)"

definition underscoreOK :: "string \<Rightarrow> bool" where
  "underscoreOK s =
     (let s1 = (if s \<noteq> [] \<and> (hd s = CHR ''-'' \<or> hd s = CHR ''+'') then tl s else s)
      in if 2 \<le> length s1 \<and> s1 ! 0 = CHR ''0'' \<and> s1 ! 1 \<in> set ''bBoOxX''
         then underscore_loop (s1 ! 1 \<in> set ''xX'') (drop 2 s1) SawDigit
         else underscore_loop False s1 SawStart)"

text \<open>
  \<^verbatim>\<open>readFloat\<close>: the sign, whether the literal is hexadecimal, the mantissa, the number
  of its digits after the point, the exponent (of 10, or of 2 for a hexadecimal
  literal) and the bytes left over; \<open>None\<close> when the string does not start with a
  literal (\<^verbatim>\<open>ok == false\<close>).
\<close>

definition readFloat :: "string \<Rightarrow> (bool \<times> bool \<times> nat \<times> nat \<times> int \<times> string) option" where
  "readFloat s =
     (if s = [] then None
      else
        let neg = (hd s = CHR ''-'');
            s1 = (if hd s = CHR ''+'' \<or> hd s = CHR ''-'' then tl s else s);
            hex = (2 < length s1 \<and> s1 ! 0 = CHR ''0'' \<and> s1 ! 1 \<in> set ''xX'');
            (m, f, dig, us, r) =
               scan_mantissa (if hex then 16 else 10) (if hex then drop 2 s1 else s1)
                 0 0 False False False
        in if \<not> dig then None
           else if r \<noteq> [] \<and> hd r \<in> set (if hex then ''pP'' else ''eE'') then
             (let r1 = tl r
              in if r1 = [] then None
                 else
                   let eneg = (hd r1 = CHR ''-'');
                       r2 = (if hd r1 = CHR ''+'' \<or> hd r1 = CHR ''-'' then tl r1 else r1)
                   in if r2 = [] \<or> \<not> is_digit (hd r2) then None
                      else
                        let (e, us', r3) = scan_exponent r2 0 us
                        in if us' \<and> \<not> underscoreOK (take (length s - length r3) s) then None
                           else Some (neg, hex, m, f, if eneg then - int e else int e, r3))
           else if hex then None
           else if us \<and> \<not> underscoreOK (take (length s - length r) s) then None
           else Some (neg, hex, m, f, 0, r))"

text \<open>The number a literal denotes, rounded to a float64.\<close>

definition literal_value :: "bool \<Rightarrow> bool \<Rightarrow> nat \<Rightarrow> nat \<Rightarrow> int \<Rightarrow> float64" where
  "literal_value neg hex m f e =
     (if m = 0 then signed_zero neg
      else
        let q = of_nat m / (if hex then 16 else 10) ^ f * (if hex then 2 else 10) powi e
        in round64 (if neg then - q else q))"

definition ParseFloat :: "string \<Rightarrow> float64 \<times> parse_error option" where
  "ParseFloat s =
     (case special s of
        Some v \<Rightarrow> (v, None)
      | None \<Rightarrow>
          (case readFloat s of
             None \<Rightarrow> (Finite 0, Some ErrSyntax)
           | Some (neg, hex, m, f, e, rest) \<Rightarrow>
               if rest \<noteq> [] then (Finite 0, Some ErrSyntax)
               else
                 let v = literal_value neg hex m f e
                 in (v, if is_inf v then Some ErrRange else None)))"

subsection \<open>Package fmt: the verb \<^verbatim>\<open>%.3f\<close>\<close>

text \<open>
  \<^verbatim>\<open>fmt.Sprintf("%.3f", x)\<close>: the sign, the integer part and three decimals of \<open>x\<close>,
  rounded to nearest, ties to even.
\<close>

definition Sprintf_3f :: "float64 \<Rightarrow> string" where
  "Sprintf_3f x =
     (case x of
        NaN \<Rightarrow> ''NaN''
      | PosInf \<Rightarrow> ''+Inf''
      | NegInf \<Rightarrow> ''-Inf''
      | NegZero \<Rightarrow> ''-0.000''
      | Finite q \<Rightarrow>
          (let n = nat (round_half_even (\<bar>q\<bar> * 1000))
           in (if q < 0 then ''-'' else []) @ decimal (n div 1000) @ ''.'' @
              [''0123456789'' ! (n mod 1000 div 100), ''0123456789'' ! (n mod 100 div 10),
               ''0123456789'' ! (n mod 10)]))"

subsection \<open>The operating system\<close>

text \<open>
  What the program asks the operating system, as values: the path of the running
  executable and the working directory (\<open>None\<close> when the call returns an error), which
  paths \<^verbatim>\<open>os.Stat\<close> finds, what \<^verbatim>\<open>exec.LookPath\<close> finds on the search path (\<open>None\<close>
  when it finds nothing; it then returns the empty path with its error), the library's
  \<^verbatim>\<open>filepath.Join\<close> and \<^verbatim>\<open>filepath.Dir\<close> of the platform, and how an external command
  ends when it is run.
\<close>

datatype run_result = Success | ExitError int | OtherError string

fun Error :: "run_result \<Rightarrow> string" where
  "Error Success = []"
| "Error (ExitError code) = ''exit status '' @ Itoa code"
| "Error (OtherError msg) = msg"

record env =
  GOOS :: goos
  Executable :: "string option"
  Getwd :: "string option"
  Stat :: "string \<Rightarrow> bool"
  LookPath :: "string \<Rightarrow> string option"
  filepath_Join :: "string list \<Rightarrow> string"
  filepath_Dir :: "string \<Rightarrow> string"
  Run :: "string \<Rightarrow> string list \<Rightarrow> run_result"

text \<open>
  What the program does to the outside: the text it prints on standard output, the
  commands it starts (the binary, the arguments, and whether the command's standard
  output is passed on to the user), and the directories it creates.
\<close>

record world =
  stdout :: "string list"
  started :: "(string \<times> string list \<times> bool) list"
  made_dirs :: "string list"

text \<open>A function of the program returns to its caller, or ends the process (\<^verbatim>\<open>os.Exit\<close>).\<close>

datatype outcome = Returns | Exits int

section \<open>The program\<close>

record Config =
  InputFile :: string
  OutputFile :: string
  MaxVideoLen :: float64
  MaxFileSize :: "64 word"
  Preset :: string
  CRF :: int
  MuteStart :: string
  MuteEnd :: string
  StartTime :: string
  EndTime :: string
  FfmpegBin :: string
  FfprobeBin :: string
  Verbose :: bool
  ExtractMP3 :: bool

subsection \<open>getInputArgs\<close>

definition getInputArgs :: "Config \<Rightarrow> string list" where
  "getInputArgs cfg =
     (let args = [];
          args = (if StartTime cfg \<noteq> [] then args @ [''-ss'', StartTime cfg] else args);
          args = (if EndTime cfg \<noteq> [] then args @ [''-to'', EndTime cfg] else args);
          args = args @ [''-i'', InputFile cfg]
      in args)"

subsection \<open>parseTimeToSeconds\<close>

text \<open>
  \<^verbatim>\<open>for i := len(parts) - 1; i >= 0; i-- {
    val, _ := strconv.ParseFloat(parts[i], 64)
    seconds += val * multiplier
    multiplier *= 60 }\<close>
  The counter of the model is \<open>i + 1\<close>; the error of \<^verbatim>\<open>ParseFloat\<close> is dropped and the
  value it returns with the error is used.
\<close>

fun parseTime_loop :: "string list \<Rightarrow> nat \<Rightarrow> float64 \<Rightarrow> float64 \<Rightarrow> float64" where
  "parseTime_loop parts 0 seconds multiplier = seconds"
| "parseTime_loop parts (Suc i) seconds multiplier =
     (let val = fst (ParseFloat (parts ! i))
      in parseTime_loop parts i (fadd seconds (fmul val multiplier))
           (fmul multiplier (Finite 60)))"

definition parseTimeToSeconds :: "string \<Rightarrow> float64" where
  "parseTimeToSeconds ts =
     (case ParseFloat ts of
        (val, None) \<Rightarrow> val
      | (_, Some err) \<Rightarrow>
          (let parts = Split ts (CHR '':'')
           in parseTime_loop parts (length parts) (Finite 0) (Finite 1)))"

subsection \<open>runFFmpeg\<close>

definition runFFmpeg :: "env \<Rightarrow> Config \<Rightarrow> string list \<Rightarrow> world \<Rightarrow> outcome \<times> world" where
  "runFFmpeg e cfg args w =
     (let w1 = w\<lparr>started := started w @ [(FfmpegBin cfg, args, Verbose cfg)]\<rparr>
      in case Run e (FfmpegBin cfg) args of
           Success \<Rightarrow> (Returns, w1)
         | err \<Rightarrow>
             (Exits 1,
              w1\<lparr>stdout := stdout w1 @ ['' FFmpeg Error: '' @ Error err @ [CHR 0x0A]]\<rparr>))"

subsection \<open>simpleCut\<close>

text \<open>The arguments \<^verbatim>\<open>simpleCut\<close> builds, and \<^verbatim>\<open>simpleCut\<close>, which runs the encoder on them.\<close>

definition simpleCut_args :: "Config \<Rightarrow> string list" where
  "simpleCut_args cfg =
     (let inputArgs = getInputArgs cfg;
          filters =
            (if MuteStart cfg \<noteq> [] \<and> MuteEnd cfg \<noteq> [] then
               (let startSec = parseTimeToSeconds (MuteStart cfg);
                    endSec = parseTimeToSeconds (MuteEnd cfg)
                in [''volume=0:enable='between(t,'' @ Sprintf_3f startSec @ '','' @
                    Sprintf_3f endSec @ '')'' @ [CHR 0x27]])
             else []);
          args = inputArgs @
            [''-c:v'', ''libx264'', ''-preset'', Preset cfg, ''-crf'', Itoa (CRF cfg),
             ''-c:a'', ''aac'', ''-b:a'', ''192k''];
          args = (if length filters > 0 then args @ [''-af'', Join filters '',''] else args);
          args = args @ [''-y'', OutputFile cfg]
      in args)"

definition simpleCut :: "env \<Rightarrow> Config \<Rightarrow> world \<Rightarrow> outcome \<times> world" where
  "simpleCut e cfg w = runFFmpeg e cfg (simpleCut_args cfg) w"

subsection \<open>extractAudio\<close>

text \<open>
  The output path \<^verbatim>\<open>extractAudio\<close> settles on, the arguments it builds, and
  \<^verbatim>\<open>extractAudio\<close>, which stores the path in its copy of the configuration, prints it
  and runs the encoder.
\<close>

definition extractAudio_output :: "goos \<Rightarrow> Config \<Rightarrow> string" where
  "extractAudio_output os cfg =
     (let outputFile = OutputFile cfg
      in if outputFile = [] then
           (let ext = Ext os (InputFile cfg);
                base = TrimSuffix (InputFile cfg) ext
            in base @ ''.mp3'')
         else if \<not> HasSuffix (ToLower outputFile) ''.mp3'' then outputFile @ ''.mp3''
         else outputFile)"

definition extractAudio_args :: "goos \<Rightarrow> Config \<Rightarrow> string list" where
  "extractAudio_args os cfg =
     [''-i'', InputFile cfg, ''-vn'', ''-acodec'', ''libmp3lame'', ''-q:a'', ''2'', ''-y'',
      extractAudio_output os cfg]"

definition extractAudio :: "env \<Rightarrow> Config \<Rightarrow> world \<Rightarrow> outcome \<times> world" where
  "extractAudio e cfg w =
     (let cfg1 = cfg\<lparr>OutputFile := extractAudio_output (GOOS e) cfg\<rparr>;
          w1 = w\<lparr>stdout := stdout w @ [''Extracting MP3 to: '' @ OutputFile cfg1 @ [CHR 0x0A]]\<rparr>
      in runFFmpeg e cfg1 (extractAudio_args (GOOS e) cfg) w1)"

subsection \<open>resolveBinary\<close>

definition resolveBinary :: "env \<Rightarrow> string \<Rightarrow> string" where
  "resolveBinary e name =
     (case (case Executable e of
              None \<Rightarrow> None
            | Some exePath \<Rightarrow>
                (let binPath = filepath_Join e [filepath_Dir e exePath, ''bin'', name]
                 in if Stat e binPath then Some binPath
                    else if Stat e (binPath @ ''.exe'') then Some (binPath @ ''.exe'')
                    else None)) of
        Some found \<Rightarrow> found
      | None \<Rightarrow>
          (case (case Getwd e of
                   None \<Rightarrow> None
                 | Some cwd \<Rightarrow>
                     (let binPath = filepath_Join e [cwd, ''bin'', name]
                      in if Stat e binPath then Some binPath
                         else if Stat e (binPath @ ''.exe'') then Some (binPath @ ''.exe'')
                         else None)) of
             Some found \<Rightarrow> found
           | None \<Rightarrow> (case LookPath e name of Some path \<Rightarrow> path | None \<Rightarrow> [])))"

subsection \<open>printStats and main\<close>

definition printStats :: "Config \<Rightarrow> world \<Rightarrow> world" where
  "printStats cfg w =
     w\<lparr>stdout := stdout w @
        [[CHR 0x0A] @ '' Done!'' @ [CHR 0x0A], ''Output: '' @ OutputFile cfg @ [CHR 0x0A]]\<rparr>"

text \<open>
  The values of the command-line flags where \<^verbatim>\<open>main\<close> has merged the interactive
  answers, fetched a remote video and checked that the input file exists (line 124).
\<close>

record flags =
  inputPtr :: string
  outputPtr :: string
  startPtr :: string
  endPtr :: string
  muteStartPtr :: string
  muteEndPtr :: string
  presetPtr :: string
  crfPtr :: int
  verbosePtr :: bool
  mp3Ptr :: bool

text \<open>Lines 124 to 134 of \<^verbatim>\<open>main\<close>: the output path.\<close>

definition main_outputFile :: "goos \<Rightarrow> flags \<Rightarrow> string" where
  "main_outputFile os fl =
     (let outputFile = outputPtr fl
      in if outputFile = [] then
           (let ext = Ext os (inputPtr fl);
                base = TrimSuffix (inputPtr fl) ext;
                suffix = ''_cleaned'';
                suffix = (if muteStartPtr fl \<noteq> [] then suffix @ ''_muted'' else suffix)
            in base @ suffix @ ext)
         else outputFile)"

text \<open>Lines 136 to 150: the configuration.\<close>

definition main_cfg :: "env \<Rightarrow> flags \<Rightarrow> Config" where
  "main_cfg e fl =
     \<lparr>InputFile = inputPtr fl, OutputFile = main_outputFile (GOOS e) fl,
      MaxVideoLen = Finite 0, MaxFileSize = 0, Preset = presetPtr fl, CRF = crfPtr fl,
      MuteStart = muteStartPtr fl, MuteEnd = muteEndPtr fl,
      StartTime = startPtr fl, EndTime = endPtr fl,
      FfmpegBin = resolveBinary e ''ffmpeg'', FfprobeBin = resolveBinary e ''ffprobe'',
      Verbose = verbosePtr fl, ExtractMP3 = mp3Ptr fl\<rparr>"

text \<open>Lines 124 to 168: \<^verbatim>\<open>main\<close> from the output path to the end.\<close>

definition main_from_input :: "env \<Rightarrow> flags \<Rightarrow> world \<Rightarrow> outcome \<times> world" where
  "main_from_input e fl w =
     (let cfg = main_cfg e fl
      in if FfmpegBin cfg = [] \<or> FfprobeBin cfg = [] then
           (Exits 1,
            w\<lparr>stdout := stdout w @
               [''Error: ffmpeg or ffprobe not found in 'bin' folder or system PATH.'' @ [CHR 0x0A],
                ''Please run the setup script to download them.'' @ [CHR 0x0A]]\<rparr>)
         else
           (let w1 = w\<lparr>made_dirs := made_dirs w @ [filepath_Dir e (OutputFile cfg)]\<rparr>;
                w2 = w1\<lparr>stdout := stdout w1 @ [''Mode: Processing (Cut/Mute)...'' @ [CHR 0x0A]]\<rparr>
            in case (if ExtractMP3 cfg then extractAudio e cfg w2 else simpleCut e cfg w2) of
                 (Exits code, w3) \<Rightarrow> (Exits code, w3)
               | (Returns, w3) \<Rightarrow> (Returns, printStats cfg w3)))"

section \<open>Notions of the specification and example inputs\<close>

text \<open>
  A mute window is a time interval, so both of its boundaries are given. (This is also
  the condition under which \<^verbatim>\<open>simpleCut\<close> adds the audio filter.)
\<close>

definition mute_window_set :: "string \<Rightarrow> string \<Rightarrow> bool" where
  "mute_window_set muteStart muteEnd = (muteStart \<noteq> [] \<and> muteEnd \<noteq> [])"

text \<open>
  The search order of the binary resolver in the words of the specification: the \<^verbatim>\<open>bin\<close>
  directory next to the running executable, then the \<^verbatim>\<open>bin\<close> directory under the working
  directory, at each the bare name and then the name with \<^verbatim>\<open>.exe\<close>; the first of them
  that exists, otherwise what the system search path gives.
\<close>

definition bin_candidates :: "env \<Rightarrow> string \<Rightarrow> string list" where
  "bin_candidates e name =
     (case Executable e of
        None \<Rightarrow> []
      | Some exePath \<Rightarrow>
          [filepath_Join e [filepath_Dir e exePath, ''bin'', name],
           filepath_Join e [filepath_Dir e exePath, ''bin'', name] @ ''.exe'']) @
     (case Getwd e of
        None \<Rightarrow> []
      | Some cwd \<Rightarrow>
          [filepath_Join e [cwd, ''bin'', name], filepath_Join e [cwd, ''bin'', name] @ ''.exe''])"

definition first_existing :: "env \<Rightarrow> string \<Rightarrow> string" where
  "first_existing e name =
     (case List.find (Stat e) (bin_candidates e name) of
        Some path \<Rightarrow> path
      | None \<Rightarrow> (case LookPath e name of Some path \<Rightarrow> path | None \<Rightarrow> []))"

text \<open>The values of the flags when none is given on the command line (lines 41 to 55).\<close>

definition flag_defaults :: flags where
  "flag_defaults =
     \<lparr>inputPtr = [], outputPtr = [], startPtr = [], endPtr = [], muteStartPtr = [],
      muteEndPtr = [], presetPtr = ''medium'', crfPtr = 23, verbosePtr = False, mp3Ptr = False\<rparr>"

text \<open>
  An installation: the tool in \<^verbatim>\<open>/opt/mutecut\<close>, started in \<^verbatim>\<open>/home/user\<close>, with the
  binaries at the paths \<open>present\<close> and an encoder that ends as \<open>result\<close> says.
\<close>

definition installation :: "string list \<Rightarrow> (string \<Rightarrow> string option) \<Rightarrow> run_result \<Rightarrow> env" where
  "installation present lookup result =
     \<lparr>GOOS = Unix, Executable = Some ''/opt/mutecut/mutecut'', Getwd = Some ''/home/user'',
      Stat = (\<lambda>path. path \<in> set present), LookPath = lookup,
      filepath_Join = (\<lambda>elems. Join elems ''/''),
      filepath_Dir = (\<lambda>path. rev (tl (dropWhile (\<lambda>c. c \<noteq> CHR ''/'') (rev path)))),
      Run = (\<lambda>bin args. result)\<rparr>"

definition fresh_world :: world where
  "fresh_world = \<lparr>stdout = [], started = [], made_dirs = []\<rparr>"

text \<open>
  The sum of the timestamp parser in the words of the specification. The segments are
  numbered from the right; the weight of segment \<open>k\<close> is 1 multiplied \<open>k\<close> times by 60, in
  float64 arithmetic as everything the parser computes.
\<close>

fun weight :: "nat \<Rightarrow> float64" where
  "weight 0 = Finite 1"
| "weight (Suc k) = fmul (weight k) (Finite 60)"

text \<open>
  What the code adds for segment \<open>k\<close>: the value \<^verbatim>\<open>ParseFloat\<close> returns for the segment,
  with or without an error, times the weight.
\<close>

definition segment_term :: "string list \<Rightarrow> nat \<Rightarrow> float64" where
  "segment_term parts k = fmul (fst (ParseFloat (parts ! (length parts - 1 - k)))) (weight k)"

definition weighted_sum :: "string list \<Rightarrow> float64" where
  "weighted_sum parts = foldl fadd (Finite 0) (map (segment_term parts) [0..<length parts])"

text \<open>
  What the claim about the parser says is added for segment \<open>k\<close>: its value times the
  weight when the segment parses, and zero when it does not; and the seconds the claim
  says the parser returns.
\<close>

definition claimed_term :: "string list \<Rightarrow> nat \<Rightarrow> float64" where
  "claimed_term parts k =
     (case ParseFloat (parts ! (length parts - 1 - k)) of
        (val, None) \<Rightarrow> fmul val (weight k)
      | (_, Some err) \<Rightarrow> Finite 0)"

definition claimed_seconds :: "string \<Rightarrow> float64" where
  "claimed_seconds ts =
     (case ParseFloat ts of
        (val, None) \<Rightarrow> val
      | (_, Some err) \<Rightarrow>
          (let parts = Split ts (CHR '':'')
           in foldl fadd (Finite 0) (map (claimed_term parts) [0..<length parts])))"

section \<open>The argument builders on Go's slices\<close>

text \<open>
  In Go the argument list is a slice: a window of \<open>slen\<close> elements on a backing array of
  \<open>scap\<close> elements that lives in the heap, at the address \<open>sptr\<close>. The heap is the list of
  the arrays allocated so far, an array's address its position in the list, so that a new
  array gets an address no slice has. \<^verbatim>\<open>append(s, elems...)\<close> writes the elements into the
  backing array of \<open>s\<close> behind its window when the capacity allows, and otherwise copies
  the window and the elements into a new array, whose capacity is at least the new
  length; how much more is the runtime's choice (\<open>grow\<close>, from the old capacity and the
  new length).
\<close>

record slice =
  sptr :: nat
  slen :: nat
  scap :: nat

type_synonym heap = "string list list"

text \<open>The nil slice and the empty slice literal \<^verbatim>\<open>[]string{}\<close>: no element, no capacity.\<close>

definition nil_slice :: slice where
  "nil_slice = \<lparr>sptr = 0, slen = 0, scap = 0\<rparr>"

text \<open>The elements of a slice: what \<^verbatim>\<open>s[0]\<close>, ..., \<^verbatim>\<open>s[len(s) - 1]\<close> read.\<close>

definition contents :: "heap \<Rightarrow> slice \<Rightarrow> string list" where
  "contents h s = (if slen s = 0 then [] else take (slen s) (h ! sptr s))"

definition append_slice ::
  "(nat \<Rightarrow> nat \<Rightarrow> nat) \<Rightarrow> heap \<Rightarrow> slice \<Rightarrow> string list \<Rightarrow> slice \<times> heap"
where
  "append_slice grow h s elems =
     (let n = slen s + length elems
      in if n \<le> scap s then
           (s\<lparr>slen := n\<rparr>,
            h[sptr s := take (slen s) (h ! sptr s) @ elems @ drop n (h ! sptr s)])
         else
           (let newcap = n + grow (scap s) n
            in (\<lparr>sptr = length h, slen = n, scap = newcap\<rparr>,
                h @ [contents h s @ elems @ replicate (newcap - n) []])))"

text \<open>\<^verbatim>\<open>getInputArgs\<close> and the builder of \<^verbatim>\<open>simpleCut\<close>, statement by statement, on slices.\<close>

definition getInputArgs_heap :: "(nat \<Rightarrow> nat \<Rightarrow> nat) \<Rightarrow> Config \<Rightarrow> heap \<Rightarrow> slice \<times> heap" where
  "getInputArgs_heap grow cfg h =
     (let (args, h) = (nil_slice, h);
          (args, h) =
            (if StartTime cfg \<noteq> [] then append_slice grow h args [''-ss'', StartTime cfg]
             else (args, h));
          (args, h) =
            (if EndTime cfg \<noteq> [] then append_slice grow h args [''-to'', EndTime cfg]
             else (args, h));
          (args, h) = append_slice grow h args [''-i'', InputFile cfg]
      in (args, h))"

definition simpleCut_heap :: "(nat \<Rightarrow> nat \<Rightarrow> nat) \<Rightarrow> Config \<Rightarrow> heap \<Rightarrow> slice \<times> heap" where
  "simpleCut_heap grow cfg h =
     (let (inputArgs, h) = getInputArgs_heap grow cfg h;
          (filters, h) =
            (if MuteStart cfg \<noteq> [] \<and> MuteEnd cfg \<noteq> [] then
               (let startSec = parseTimeToSeconds (MuteStart cfg);
                    endSec = parseTimeToSeconds (MuteEnd cfg)
                in append_slice grow h nil_slice
                     [''volume=0:enable='between(t,'' @ Sprintf_3f startSec @ '','' @
                      Sprintf_3f endSec @ '')'' @ [CHR 0x27]])
             else (nil_slice, h));
          (args, h) = append_slice grow h inputArgs
            [''-c:v'', ''libx264'', ''-preset'', Preset cfg, ''-crf'', Itoa (CRF cfg),
             ''-c:a'', ''aac'', ''-b:a'', ''192k''];
          (args, h) =
            (if slen filters > 0 then
               append_slice grow h args [''-af'', Join (contents h filters) '','']
             else (args, h));
          (args, h) = append_slice grow h args [''-y'', OutputFile cfg]
      in (args, h))"

text \<open>
  A slice the builder owns: its backing array was allocated after the first \<open>base\<close>
  arrays of the heap, and the window fits the array.
\<close>

definition owned :: "nat \<Rightarrow> heap \<Rightarrow> slice \<Rightarrow> bool" where
  "owned base h s =
     (slen s \<le> scap s \<and>
      (scap s = 0 \<or> (base \<le> sptr s \<and> sptr s < length h \<and> length (h ! sptr s) = scap s)))"

section \<open>Properties of the library functions\<close>

lemma Ext_loop_drop: "i \<le> length path \<Longrightarrow> \<exists>j\<le>length path. Ext_loop os path i = drop j path"
proof (induction i)
  case 0
  have "Ext_loop os path 0 = drop (length path) path" by simp
  then show ?case by blast
next
  case (Suc i)
  then obtain j where j: "j \<le> length path" "Ext_loop os path i = drop j path" by auto
  show ?case
  proof (cases "IsPathSeparator os (path ! i)")
    case True
    then have "Ext_loop os path (Suc i) = drop (length path) path" by simp
    then show ?thesis by blast
  next
    case False
    show ?thesis
    proof (cases "path ! i = CHR ''.''")
      case True
      with False have "Ext_loop os path (Suc i) = drop i path" by simp
      moreover have "i \<le> length path" using Suc.prems by simp
      ultimately show ?thesis by blast
    next
      case dot: False
      with False j show ?thesis by auto
    qed
  qed
qed

lemma TrimSuffix_drop: "j \<le> length s \<Longrightarrow> TrimSuffix s (drop j s) @ drop j s = s"
  by (simp add: TrimSuffix_def HasSuffix_def)

text \<open>The extension is a suffix of the path, so trimming it and putting it back is the path.\<close>

lemma TrimSuffix_Ext: "TrimSuffix path (Ext os path) @ Ext os path = path"
proof -
  obtain j where "j \<le> length path" "Ext os path = drop j path"
    using Ext_loop_drop [of "length path" path os] by (auto simp: Ext_def)
  then show ?thesis by (simp add: TrimSuffix_drop)
qed



lemma Ext_a_mp4: "Ext os ''a.mp4'' = ''.mp4''"
  by (cases os) (simp_all add: Ext_def)

lemma TrimSuffix_a_mp4: "TrimSuffix ''a.mp4'' ''.mp4'' = ''a''"
  by (simp add: TrimSuffix_def HasSuffix_def)

section \<open>Properties of the program's functions\<close>

lemma simpleCut_args_eq:
  "simpleCut_args cfg =
     getInputArgs cfg @
     [''-c:v'', ''libx264'', ''-preset'', Preset cfg, ''-crf'', Itoa (CRF cfg),
      ''-c:a'', ''aac'', ''-b:a'', ''192k''] @
     (if MuteStart cfg \<noteq> [] \<and> MuteEnd cfg \<noteq> [] then
        [''-af'',
         ''volume=0:enable='between(t,'' @ Sprintf_3f (parseTimeToSeconds (MuteStart cfg)) @
         '','' @ Sprintf_3f (parseTimeToSeconds (MuteEnd cfg)) @ '')'' @ [CHR 0x27]]
      else []) @
     [''-y'', OutputFile cfg]"
  by (simp add: simpleCut_args_def Let_def)

text \<open>Whatever the encoder does, \<^verbatim>\<open>runFFmpeg\<close> starts it once, on the arguments it is given.\<close>

lemma started_runFFmpeg:
  "started (snd (runFFmpeg e cfg args w)) = started w @ [(FfmpegBin cfg, args, Verbose cfg)]"
  by (simp add: runFFmpeg_def Let_def split: run_result.splits)

lemma runFFmpeg_ExitError:
  "Run e (FfmpegBin cfg) args = ExitError code \<Longrightarrow>
   runFFmpeg e cfg args w =
     (Exits 1,
      w\<lparr>started := started w @ [(FfmpegBin cfg, args, Verbose cfg)],
        stdout := stdout w @ ['' FFmpeg Error: exit status '' @ Itoa code @ [CHR 0x0A]]\<rparr>)"
  by (simp add: runFFmpeg_def Let_def)


text \<open>
  \<^verbatim>\<open>main\<close> when both binaries are found and the encoder ends with an exit status the
  library reports as an error: the process exits with status 1 after the error line, and
  the line of \<^verbatim>\<open>printStats\<close> is never printed.
\<close>

lemma main_from_input_ExitError:
  assumes fails: "\<forall>args. Run e (resolveBinary e ''ffmpeg'') args = ExitError code"
    and ffmpeg: "resolveBinary e ''ffmpeg'' \<noteq> []"
    and ffprobe: "resolveBinary e ''ffprobe'' \<noteq> []"
  shows "main_from_input e fl w =
     (Exits 1,
      w\<lparr>made_dirs := made_dirs w @ [filepath_Dir e (main_outputFile (GOOS e) fl)],
        stdout := stdout w @ [''Mode: Processing (Cut/Mute)...'' @ [CHR 0x0A]] @
          (if mp3Ptr fl then
             [''Extracting MP3 to: '' @ extractAudio_output (GOOS e) (main_cfg e fl) @ [CHR 0x0A]]
           else []) @
          ['' FFmpeg Error: exit status '' @ Itoa code @ [CHR 0x0A]],
        started := started w @
          [(resolveBinary e ''ffmpeg'',
            if mp3Ptr fl then extractAudio_args (GOOS e) (main_cfg e fl)
            else simpleCut_args (main_cfg e fl),
            verbosePtr fl)]\<rparr>)"
proof -
  have bin: "FfmpegBin (main_cfg e fl) = resolveBinary e ''ffmpeg''"
    and probe: "FfprobeBin (main_cfg e fl) = resolveBinary e ''ffprobe''"
    and out: "OutputFile (main_cfg e fl) = main_outputFile (GOOS e) fl"
    and mp3: "ExtractMP3 (main_cfg e fl) = mp3Ptr fl"
    and verbose: "Verbose (main_cfg e fl) = verbosePtr fl"
    by (simp_all add: main_cfg_def)
  have run: "Run e (FfmpegBin cfg) args = ExitError code"
    if "FfmpegBin cfg = resolveBinary e ''ffmpeg''" for cfg :: Config and args
    using fails that by simp
  show ?thesis
  proof (cases "mp3Ptr fl")
    case True
    then show ?thesis
      using ffmpeg ffprobe
      by (simp add: main_from_input_def Let_def bin probe out mp3 verbose extractAudio_def
          runFFmpeg_ExitError [OF run])
  next
    case False
    then show ?thesis
      using ffmpeg ffprobe
      by (simp add: main_from_input_def Let_def bin probe out mp3 verbose simpleCut_def
          runFFmpeg_ExitError [OF run])
  qed
qed

text \<open>The example installation with both binaries beside the tool.\<close>

lemma installation_binaries:
  "resolveBinary (installation [''/opt/mutecut/bin/ffmpeg'', ''/opt/mutecut/bin/ffprobe''] look r)
     ''ffmpeg'' = ''/opt/mutecut/bin/ffmpeg'' \<and>
   resolveBinary (installation [''/opt/mutecut/bin/ffmpeg'', ''/opt/mutecut/bin/ffprobe''] look r)
     ''ffprobe'' = ''/opt/mutecut/bin/ffprobe''"
  by (simp add: resolveBinary_def installation_def)

section \<open>Floating-point numbers and timestamps\<close>

subsection \<open>Rounding to a float64\<close>

lemma bit_length_upper: "n < 2 ^ bit_length n"
proof (induction n rule: bit_length.induct)
  case (1 n)
  show ?case
  proof (cases "n = 0")
    case True
    then show ?thesis by (simp add: bit_length.simps)
  next
    case False
    with 1 have "n div 2 < 2 ^ bit_length (n div 2)" by simp
    then have "n < 2 * 2 ^ bit_length (n div 2)" by linarith
    with False show ?thesis by (simp add: bit_length.simps [of n])
  qed
qed

lemma bit_length_lower: "0 < n \<Longrightarrow> 2 ^ (bit_length n - 1) \<le> n"
proof (induction n rule: bit_length.induct)
  case (1 n)
  then have n: "n \<noteq> 0" by simp
  have bl: "bit_length n - 1 = bit_length (n div 2)"
    using n by (simp add: bit_length.simps [of n])
  show ?case
  proof (cases "n div 2 = 0")
    case True
    then show ?thesis using n bl by (simp add: bit_length.simps [of 0])
  next
    case False
    with 1 n have "2 ^ (bit_length (n div 2) - 1) \<le> n div 2" by simp
    moreover have "0 < bit_length (n div 2)"
      using False by (simp add: bit_length.simps [of "n div 2"])
    ultimately have "2 ^ bit_length (n div 2) \<le> 2 * (n div 2)"
      by (cases "bit_length (n div 2)") simp_all
    then show ?thesis using bl by simp
  qed
qed

lemma bit_length_pos: "0 < n \<Longrightarrow> 0 < bit_length n"
  by (simp add: bit_length.simps [of n])

text \<open>The exponent of a rational that is at least 1.\<close>

lemma floor_log2_bounds:
  assumes "1 \<le> a"
  shows "0 \<le> floor_log2 a" and "2 powi floor_log2 a \<le> a" and "a < 2 powi (floor_log2 a + 1)"
proof -
  let ?n = "nat \<lfloor>a\<rfloor>"
  have n: "0 < ?n" using assms by simp
  have e: "floor_log2 a = int (bit_length ?n - 1)"
    using assms bit_length_pos [OF n] by (simp add: floor_log2_def)
  show "0 \<le> floor_log2 a" by (simp add: e)
  have "(2::rat) ^ (bit_length ?n - 1) \<le> of_nat ?n"
    using bit_length_lower [OF n] by (metis of_nat_le_iff of_nat_numeral of_nat_power)
  also have "\<dots> \<le> a" using assms by simp
  finally show "2 powi floor_log2 a \<le> a" by (simp add: e)
  have "a < of_int (\<lfloor>a\<rfloor> + 1)" by linarith
  also have "\<dots> = of_nat (?n + 1)" using assms by simp
  also have "\<dots> \<le> (2::rat) ^ bit_length ?n"
    using bit_length_upper [of ?n] by (metis Suc_eq_plus1 Suc_leI of_nat_le_iff of_nat_numeral of_nat_power)
  finally show "a < 2 powi (floor_log2 a + 1)"
    using bit_length_pos [OF n] by (simp add: e)
qed

lemma round_half_even_of_int: "round_half_even (of_int k) = k"
  by (simp add: round_half_even_def)

lemma round_half_even_lower: "x - 1 / 2 \<le> of_int (round_half_even x)"
  unfolding round_half_even_def Let_def by (simp; linarith)

lemma round_half_even_floor: "\<lfloor>x\<rfloor> \<le> round_half_even x"
  unfolding round_half_even_def Let_def by simp

lemma two_powi_neg: "(2::rat) powi (- int d) = 1 / 2 ^ d"
  by (simp add: power_int_minus divide_inverse)

text \<open>Integers below \<open>2\<^sup>5\<^sup>3\<close> are float64 numbers: rounding leaves them as they are.\<close>

lemma round64_of_int:
  assumes "0 < k" and "k < 2 ^ 53"
  shows "round64 (of_int k) = Finite (of_int k)"
proof -
  let ?a = "of_int k :: rat"
  let ?e = "floor_log2 ?a"
  have a: "1 \<le> ?a" using assms(1) by simp
  note b = floor_log2_bounds [OF a]
  have "?a < of_int (2 ^ 53)" using assms(2) by (simp only: of_int_less_iff)
  then have a53: "?a < 2 ^ 53" by simp
  then have "(2::rat) powi ?e < 2 powi 53" using b(2) by simp
  then have e53: "?e < 53"
    using power_int_le_imp_less_exp [of "2::rat" ?e 53] by simp
  define d where "d = nat (52 - ?e)"
  have d: "?e - 52 = - int d" using e53 by (simp add: d_def)
  have ulp: "(2::rat) powi (?e - 52) = 1 / 2 ^ d"
    unfolding d by (rule two_powi_neg)
  have "?a / (2 powi (?e - 52)) = of_int (k * 2 ^ d)"
    unfolding ulp by simp
  then have "round_half_even (?a / (2 powi (?e - 52))) = k * 2 ^ d"
    by (simp only: round_half_even_of_int)
  then have m: "of_int (round_half_even (?a / (2 powi (?e - 52)))) * 2 powi (?e - 52) = ?a"
    unfolding ulp by simp
  have small: "\<not> (2::rat) ^ 1024 \<le> ?a"
  proof -
    have "(2::rat) ^ 53 \<le> 2 ^ 1024" by simp
    with a53 show ?thesis by linarith
  qed
  have "max ?e (- 1022) = ?e" using b(1) by simp
  then show ?thesis
    using assms(1) small m by (simp add: round64_def Let_def)
qed

text \<open>From \<open>2\<^sup>1\<^sup>0\<^sup>2\<^sup>4\<close> on, rounding gives the infinity.\<close>

lemma round64_overflow:
  assumes "2 ^ 1024 \<le> q"
  shows "round64 q = PosInf"
proof -
  let ?e = "floor_log2 q"
  have big: "(1::rat) \<le> 2 ^ 1024" by simp
  have a: "1 \<le> q" using assms big by linarith
  note b = floor_log2_bounds [OF a]
  have "(2::rat) powi 1024 < 2 powi (?e + 1)"
    using assms b(3) by simp
  then have "1024 < ?e + 1"
    using power_int_le_imp_less_exp [of "2::rat" 1024 "?e + 1"] b(1) by simp
  then have e: "1024 \<le> ?e" by simp
  let ?ulp = "(2::rat) powi (?e - 52)"
  have ulp_pos: "0 < ?ulp" by simp
  have split: "2 ^ 52 * ?ulp = (2::rat) powi ?e"
    by (simp add: power_int_diff)
  then have "(2::rat) ^ 52 = 2 powi ?e / ?ulp"
    using ulp_pos by (simp add: field_simps)
  also have "\<dots> \<le> q / ?ulp"
    using b(2) ulp_pos by (simp only: divide_right_mono less_imp_le)
  finally have "(2::rat) ^ 52 \<le> q / ?ulp" .
  then have "(2::int) ^ 52 \<le> \<lfloor>q / ?ulp\<rfloor>"
    by (simp add: le_floor_iff)
  then have "(2::int) ^ 52 \<le> round_half_even (q / ?ulp)"
    using round_half_even_floor [of "q / ?ulp"] by linarith
  then have "(of_int (2 ^ 52) :: rat) \<le> of_int (round_half_even (q / ?ulp))"
    by (simp only: of_int_le_iff)
  then have "(2::rat) ^ 52 \<le> of_int (round_half_even (q / ?ulp))"
    by simp
  then have "2 ^ 52 * ?ulp \<le> of_int (round_half_even (q / ?ulp)) * ?ulp"
    using ulp_pos by (simp only: mult_right_mono less_imp_le)
  moreover have "(2::rat) powi 1024 \<le> 2 powi ?e"
    using e by (simp only: power_int_increasing one_le_numeral)
  ultimately have "(2::rat) ^ 1024 \<le> of_int (round_half_even (q / ?ulp)) * ?ulp"
    unfolding split by simp
  moreover have "max ?e (- 1022) = ?e" using b(1) by simp
  moreover have "q \<noteq> 0" "\<not> q < 0" "\<bar>q\<bar> = q" using a by simp_all
  ultimately show ?thesis
    by (simp add: round64_def Let_def)
qed

lemma round64_numeral:
  "numeral n < (2::int) ^ 53 \<Longrightarrow> round64 (numeral n) = Finite (numeral n)"
  using round64_of_int [of "numeral n"] by simp

lemma round64_one: "round64 1 = Finite 1"
  using round64_of_int [of 1] by simp

text \<open>Rounding a rational that is at least 1 loses at most one part in \<open>2\<^sup>5\<^sup>3\<close>.\<close>

lemma round64_lower:
  assumes "1 \<le> q"
  shows "round64 q = PosInf \<or>
         (\<exists>m. round64 q = Finite m \<and> q * (1 - 1 / 2 ^ 53) \<le> m \<and> m < 2 ^ 1024)"
proof -
  let ?e = "floor_log2 q"
  note b = floor_log2_bounds [OF assms]
  let ?ulp = "(2::rat) powi (?e - 52)"
  let ?m = "of_int (round_half_even (q / ?ulp)) * ?ulp"
  have ulp_pos: "0 < ?ulp" by simp
  have "2 ^ 52 * ?ulp = (2::rat) powi ?e"
    by (simp add: power_int_diff)
  then have "2 ^ 52 * ?ulp \<le> q" using b(2) by simp
  then have ulp: "?ulp / 2 \<le> q / 2 ^ 53" by (simp add: field_simps)
  have "(q / ?ulp - 1 / 2) * ?ulp \<le> ?m"
    using round_half_even_lower [of "q / ?ulp"] ulp_pos by (simp only: mult_right_mono less_imp_le)
  moreover have "(q / ?ulp - 1 / 2) * ?ulp = q - ?ulp / 2"
    using ulp_pos by (simp add: field_simps)
  ultimately have "q - q / 2 ^ 53 \<le> ?m" using ulp by linarith
  then have low: "q * (1 - 1 / 2 ^ 53) \<le> ?m" by (simp add: field_simps)
  have "0 < q * (1 - 1 / 2 ^ 53)" using assms by simp
  with low have pos: "0 < ?m" by linarith
  have max: "max ?e (- 1022) = ?e" using b(1) by simp
  have q: "q \<noteq> 0" "\<not> q < 0" "\<bar>q\<bar> = q" using assms by simp_all
  show ?thesis
  proof (cases "2 ^ 1024 \<le> ?m")
    case True
    then have "round64 q = PosInf"
      using max q by (simp add: round64_def Let_def)
    then show ?thesis by simp
  next
    case False
    then have "round64 q = Finite ?m"
      using max q pos by (simp add: round64_def Let_def)
    with low False show ?thesis by simp
  qed
qed

subsection \<open>The weights of the segments\<close>

lemma weight_cases:
  "weight k = PosInf \<or> (\<exists>w. weight k = Finite w \<and> 59 ^ k \<le> w \<and> w < 2 ^ 1024)"
proof (induction k)
  case 0
  then show ?case by simp
next
  case (Suc k)
  then show ?case
  proof
    assume "weight k = PosInf"
    then show ?thesis by (simp add: fmul_def signed_inf_def)
  next
    assume "\<exists>w. weight k = Finite w \<and> 59 ^ k \<le> w \<and> w < 2 ^ 1024"
    then obtain w where w: "weight k = Finite w" "59 ^ k \<le> w" by blast
    have "(1::rat) \<le> 59 ^ k" by simp
    with w(2) have w1: "1 \<le> w" by linarith
    then have step: "weight (Suc k) = round64 (w * 60)"
      using w(1) by (simp add: fmul_def)
    have "1 \<le> w * 60" using w1 by simp
    from round64_lower [OF this] show ?thesis
    proof
      assume "round64 (w * 60) = PosInf"
      then show ?thesis using step by simp
    next
      assume "\<exists>m. round64 (w * 60) = Finite m \<and> w * 60 * (1 - 1 / 2 ^ 53) \<le> m \<and> m < 2 ^ 1024"
      then obtain m where m: "round64 (w * 60) = Finite m" "w * 60 * (1 - 1 / 2 ^ 53) \<le> m"
        "m < 2 ^ 1024" by blast
      have "(59::rat) \<le> 60 * (1 - 1 / 2 ^ 53)" by simp
      then have "w * 59 \<le> w * (60 * (1 - 1 / 2 ^ 53))"
        using w1 by (simp only: mult_left_mono)
      then have "w * 59 \<le> m" using m(2) by (simp add: mult.assoc)
      moreover have "59 ^ k * 59 \<le> w * 59" using w(2) by simp
      ultimately have "59 ^ Suc k \<le> m" by simp
      with m(1,3) step show ?thesis by simp
    qed
  qed
qed

text \<open>The weight is the infinity from segment 175 on.\<close>

lemma weight_overflow:
  assumes "175 \<le> k"
  shows "weight k = PosInf"
proof (rule ccontr)
  assume "weight k \<noteq> PosInf"
  with weight_cases [of k] obtain w where w: "59 ^ k \<le> w" "w < (2::rat) ^ 1024" by blast
  have "(2::rat) ^ 1024 \<le> 59 ^ 175" by simp
  also have "\<dots> \<le> 59 ^ k" using assms by (simp only: power_increasing one_le_numeral)
  finally show False using w by linarith
qed

lemma weight_small: "weight 0 = Finite 1 \<and> weight 1 = Finite 60 \<and> weight 2 = Finite 3600"
proof -
  have "weight 1 = Finite 60"
    by (simp add: fmul_def round64_numeral)
  moreover have "weight 2 = fmul (weight 1) (Finite 60)"
    by (simp add: numeral_2_eq_2)
  ultimately show ?thesis by (simp add: fmul_def round64_numeral)
qed

subsection \<open>ParseFloat\<close>

text \<open>A syntax error comes with the value \<open>+0\<close>, a range error with an infinity.\<close>

lemma ParseFloat_error_value:
  "(snd (ParseFloat s) = Some ErrSyntax \<longrightarrow> fst (ParseFloat s) = Finite 0) \<and>
   (snd (ParseFloat s) = Some ErrRange \<longrightarrow> fst (ParseFloat s) = PosInf \<or> fst (ParseFloat s) = NegInf)"
proof (cases "special s")
  case (Some v)
  then show ?thesis by (simp add: ParseFloat_def)
next
  case None
  show ?thesis
  proof (cases "readFloat s")
    case no: None
    with None show ?thesis by (simp add: ParseFloat_def)
  next
    case (Some r)
    obtain neg hex m f e rest where r: "r = (neg, hex, m, f, e, rest)"
      by (cases r) auto
    show ?thesis
    proof (cases "rest = []")
      case True
      have "is_inf v \<Longrightarrow> v = PosInf \<or> v = NegInf" for v
        by (cases v) simp_all
      with None Some r True show ?thesis
        by (simp add: ParseFloat_def Let_def)
    next
      case False
      with None Some r show ?thesis by (simp add: ParseFloat_def)
    qed
  qed
qed

lemmas parse_defs = ParseFloat_def special_def ToLower_def toLower_def readFloat_def
  literal_value_def signed_zero_def digit_value_def is_digit_def Let_def

lemma ParseFloat_colon: "ParseFloat (CHR '':'' # s) = (Finite 0, Some ErrSyntax)"
  by (simp add: parse_defs)

lemma ParseFloat_empty: "ParseFloat [] = (Finite 0, Some ErrSyntax)"
  by (simp add: parse_defs)

lemma ParseFloat_1e309: "ParseFloat ''1e309'' = (PosInf, Some ErrRange)"
proof -
  have "(2::rat) ^ 1024 \<le> 10 ^ 309" by simp
  then have "round64 (10 ^ 309) = PosInf" by (rule round64_overflow)
  then show ?thesis by (simp add: parse_defs)
qed

subsection \<open>The loop of parseTimeToSeconds\<close>

text \<open>
  With \<open>i\<close> segments still to read and the weight of segment \<open>k\<close> as the multiplier, the
  loop adds the terms of the segments \<open>k\<close>, \<open>k + 1\<close>, ... to the seconds, in this order.
\<close>

lemma parseTime_loop_sum:
  "i + k = length parts \<Longrightarrow>
   parseTime_loop parts i seconds (weight k) =
     foldl fadd seconds (map (segment_term parts) [k..<length parts])"
proof (induction i arbitrary: seconds k)
  case 0
  then show ?case by simp
next
  case (Suc i)
  then have k: "k < length parts" and i: "i = length parts - 1 - k" by simp_all
  have "parseTime_loop parts (Suc i) seconds (weight k) =
          parseTime_loop parts i (fadd seconds (segment_term parts k)) (weight (Suc k))"
    by (simp add: segment_term_def i Let_def)
  also have "\<dots> = foldl fadd (fadd seconds (segment_term parts k))
                     (map (segment_term parts) [Suc k..<length parts])"
    using Suc.prems by (intro Suc.IH) simp
  also have "\<dots> = foldl fadd seconds (map (segment_term parts) [k..<length parts])"
    using k by (simp add: upt_conv_Cons)
  finally show ?case .
qed

lemma parseTimeToSeconds_sum:
  "parseTimeToSeconds ts =
     (case ParseFloat ts of
        (val, None) \<Rightarrow> val
      | (_, Some err) \<Rightarrow> weighted_sum (Split ts (CHR '':'')))"
proof -
  have "parseTime_loop parts (length parts) (Finite 0) (Finite 1) = weighted_sum parts" for parts
    using parseTime_loop_sum [of "length parts" 0 parts "Finite 0"]
    by (simp add: weighted_sum_def)
  then show ?thesis
    by (simp add: parseTimeToSeconds_def Let_def split: prod.splits option.splits)
qed

lemma Split_colons: "Split (replicate n (CHR '':'')) (CHR '':'') = replicate (Suc n) []"
  by (induction n) simp_all

text \<open>A NaN stays: once a term is a NaN, the sum is.\<close>

lemma fadd_NaN: "fadd x NaN = NaN"
  by (simp add: fadd_def)

lemma foldl_fadd_NaN: "foldl fadd NaN xs = NaN"
  by (induction xs) (simp_all add: fadd_def)

lemma foldl_fadd_zero_terms:
  "\<forall>x \<in> set xs. f x = Finite 0 \<Longrightarrow> foldl fadd (Finite 0) (map f xs) = Finite 0"
  by (induction xs) (simp_all add: fadd_def signed_zero_def)

subsection \<open>Timestamps of the examples\<close>

lemma ParseFloat_numbers:
  "ParseFloat ''90'' = (Finite 90, None)"
  "ParseFloat ''00'' = (Finite 0, None)"
  "ParseFloat ''01'' = (Finite 1, None)"
  "ParseFloat ''06'' = (Finite 6, None)"
  "ParseFloat ''10'' = (Finite 10, None)"
  "ParseFloat ''20'' = (Finite 20, None)"
  "ParseFloat ''30'' = (Finite 30, None)"
  by (simp_all add: parse_defs round64_numeral round64_one)

lemma ParseFloat_timestamps:
  "ParseFloat ''01:30'' = (Finite 0, Some ErrSyntax)"
  "ParseFloat ''01:00:00'' = (Finite 0, Some ErrSyntax)"
  "ParseFloat ''00:06:00'' = (Finite 0, Some ErrSyntax)"
  "ParseFloat ''00:06:30'' = (Finite 0, Some ErrSyntax)"
  by (simp_all add: parse_defs)

lemmas float_eval = fadd_def fmul_def signed_zero_def round64_numeral round64_one

lemma parseTimeToSeconds_examples:
  "parseTimeToSeconds ''90'' = Finite 90"
  "parseTimeToSeconds ''10'' = Finite 10"
  "parseTimeToSeconds ''20'' = Finite 20"
  "parseTimeToSeconds ''01:30'' = Finite 90"
  "parseTimeToSeconds ''01:00:00'' = Finite 3600"
  "parseTimeToSeconds ''00:06:00'' = Finite 360"
  "parseTimeToSeconds ''00:06:30'' = Finite 390"
  by (simp_all add: parseTimeToSeconds_def ParseFloat_numbers ParseFloat_timestamps Let_def
      float_eval)

lemma Sprintf_3f_examples:
  "Sprintf_3f (Finite 10) = ''10.000''"
  "Sprintf_3f (Finite 20) = ''20.000''"
  "Sprintf_3f (Finite 360) = ''360.000''"
  "Sprintf_3f (Finite 390) = ''390.000''"
  by (simp_all add: Sprintf_3f_def round_half_even_def decimal.simps Let_def)

text \<open>A number too large for a float64, alone or as a segment, makes the seconds infinite.\<close>

lemma parseTimeToSeconds_1e309: "parseTimeToSeconds ''1e309'' = PosInf"
  by (simp add: parseTimeToSeconds_def ParseFloat_1e309 Let_def fadd_def fmul_def signed_inf_def)

lemma claimed_seconds_1e309: "claimed_seconds ''1e309'' = Finite 0"
  by (simp add: claimed_seconds_def claimed_term_def ParseFloat_1e309 Let_def fadd_def
      signed_zero_def)

text \<open>
  176 empty segments: the weight of the last one read is the infinity, and zero times
  the infinity is a NaN.
\<close>

lemma parseTimeToSeconds_colons: "parseTimeToSeconds (replicate 175 (CHR '':'')) = NaN"
proof -
  let ?parts = "replicate 176 ([]::string)"
  have n: "(175::nat) = Suc 174" and n': "(176::nat) = Suc 175" by simp_all
  have err: "ParseFloat (replicate 175 (CHR '':'')) = (Finite 0, Some ErrSyntax)"
    unfolding n replicate_Suc by (rule ParseFloat_colon)
  have split: "Split (replicate 175 (CHR '':'')) (CHR '':'') = ?parts"
    by (simp only: Split_colons n')
  have "segment_term ?parts 175 = fmul (Finite 0) (weight 175)"
    by (simp add: segment_term_def ParseFloat_empty)
  also have "\<dots> = NaN"
    by (simp add: weight_overflow fmul_def)
  finally have last: "segment_term ?parts 175 = NaN" .
  have "[0..<176] = [0..<175] @ [175]"
    unfolding n' by (simp only: upt_Suc_append le0)
  then have "weighted_sum ?parts =
      fadd (foldl fadd (Finite 0) (map (segment_term ?parts) [0..<175])) (segment_term ?parts 175)"
    by (simp add: weighted_sum_def)
  also have "\<dots> = NaN"
    unfolding last by (simp add: fadd_def)
  finally show ?thesis
    by (simp add: parseTimeToSeconds_sum err split)
qed

lemma claimed_seconds_colons: "claimed_seconds (replicate 175 (CHR '':'')) = Finite 0"
proof -
  let ?parts = "replicate 176 ([]::string)"
  have n: "(175::nat) = Suc 174" and n': "(176::nat) = Suc 175" by simp_all
  have err: "ParseFloat (replicate 175 (CHR '':'')) = (Finite 0, Some ErrSyntax)"
    unfolding n replicate_Suc by (rule ParseFloat_colon)
  have split: "Split (replicate 175 (CHR '':'')) (CHR '':'') = ?parts"
    by (simp only: Split_colons n')
  have "\<forall>k \<in> set [0..<length ?parts]. claimed_term ?parts k = Finite 0"
    by (simp add: claimed_term_def ParseFloat_empty)
  then have "foldl fadd (Finite 0) (map (claimed_term ?parts) [0..<length ?parts]) = Finite 0"
    by (rule foldl_fadd_zero_terms)
  then show ?thesis
    by (simp add: claimed_seconds_def err split Let_def)
qed

lemma fmul_zero_weight: "weight k \<noteq> PosInf \<Longrightarrow> fmul (Finite 0) (weight k) = Finite 0"
proof -
  assume "weight k \<noteq> PosInf"
  with weight_cases [of k] obtain w where w: "weight k = Finite w" "59 ^ k \<le> w" by blast
  have "(0::rat) < 59 ^ k" by simp
  with w(2) have "0 < w" by linarith
  with w(1) show ?thesis by (simp add: fmul_def signed_zero_def)
qed


section \<open>Properties of the builders on slices\<close>

text \<open>
  Appending to an owned slice gives an owned slice with the elements added, of a positive
  capacity, leaves the first \<open>base\<close> arrays as they are, and changes no array but the
  slice's own.
\<close>

lemma append_slice_owned:
  assumes own: "owned base h s" and base: "base \<le> length h" and elems: "elems \<noteq> []"
  shows "\<exists>s' h'. append_slice grow h s elems = (s', h') \<and>
           contents h' s' = contents h s @ elems \<and>
           owned base h' s' \<and> 0 < slen s' \<and> 0 < scap s' \<and> sptr s' < length h' \<and>
           base \<le> length h' \<and> length h \<le> length h' \<and> take base h' = take base h \<and>
           (sptr s' = sptr s \<and> 0 < scap s \<or> sptr s' = length h) \<and>
           (\<forall>p < length h. p \<noteq> sptr s' \<longrightarrow> h' ! p = h ! p)"
proof (cases "slen s + length elems \<le> scap s")
  case True
  let ?n = "slen s + length elems"
  let ?arr = "take (slen s) (h ! sptr s) @ elems @ drop ?n (h ! sptr s)"
  have pos: "0 < length elems" using elems by simp
  with True have cap: "0 < scap s" by linarith
  with own have ptr: "base \<le> sptr s" "sptr s < length h" "length (h ! sptr s) = scap s"
    and fit: "slen s \<le> scap s"
    by (simp_all add: owned_def)
  have eq: "append_slice grow h s elems = (s\<lparr>slen := ?n\<rparr>, h[sptr s := ?arr])"
    using True by (simp add: append_slice_def Let_def)
  have len: "length ?arr = scap s"
    using True ptr(3) fit by simp
  have "take ?n ?arr = take (slen s) (h ! sptr s) @ elems"
    using True ptr(3) fit by simp
  then have cont: "contents (h[sptr s := ?arr]) (s\<lparr>slen := ?n\<rparr>) = contents h s @ elems"
    using ptr(2) pos by (simp add: contents_def)
  have own': "owned base (h[sptr s := ?arr]) (s\<lparr>slen := ?n\<rparr>)"
    using True ptr len by (simp add: owned_def)
  have frame: "take base (h[sptr s := ?arr]) = take base h"
    using ptr(1) by (simp add: take_update_cancel)
  show ?thesis
    using eq cont own' frame pos cap ptr(2) base by simp
next
  case False
  let ?n = "slen s + length elems"
  let ?newcap = "?n + grow (scap s) ?n"
  let ?arr = "contents h s @ elems @ replicate (?newcap - ?n) []"
  let ?s = "\<lparr>sptr = length h, slen = ?n, scap = ?newcap\<rparr>"
  have pos: "0 < length elems" using elems by simp
  have eq: "append_slice grow h s elems = (?s, h @ [?arr])"
    using False by (simp add: append_slice_def Let_def)
  have fit: "slen s \<le> scap s" using own by (simp add: owned_def)
  have clen: "length (contents h s) = slen s"
  proof (cases "slen s = 0")
    case True
    then show ?thesis by (simp add: contents_def)
  next
    case nz: False
    with fit have "scap s \<noteq> 0" by simp
    with own have "length (h ! sptr s) = scap s" by (simp add: owned_def)
    with fit nz show ?thesis by (simp add: contents_def)
  qed
  have cont: "contents (h @ [?arr]) ?s = contents h s @ elems"
    using pos clen by (simp add: contents_def)
  have own': "owned base (h @ [?arr]) ?s"
    using base clen by (simp add: owned_def)
  have other: "\<forall>p < length h. p \<noteq> sptr ?s \<longrightarrow> (h @ [?arr]) ! p = h ! p"
    by (simp add: nth_append)
  show ?thesis
    using eq cont own' other pos base by simp
qed

lemma owned_nil: "owned base h nil_slice"
  by (simp add: owned_def nil_slice_def)

lemma contents_nil: "contents h nil_slice = []"
  by (simp add: contents_def nil_slice_def)

text \<open>
  \<^verbatim>\<open>getInputArgs\<close> on slices returns a slice with the list of \<^verbatim>\<open>getInputArgs\<close>, whatever
  the heap holds and however the runtime grows arrays.
\<close>

lemma getInputArgs_heap_owned:
  "\<exists>s' h'. getInputArgs_heap grow cfg h = (s', h') \<and>
     contents h' s' = getInputArgs cfg \<and>
     owned (length h) h' s' \<and> 0 < scap s' \<and> sptr s' < length h' \<and>
     length h \<le> length h' \<and> take (length h) h' = h"
proof -
  let ?b = "length h"
  obtain s1 h1 where s1:
      "(if StartTime cfg \<noteq> [] then append_slice grow h nil_slice [''-ss'', StartTime cfg]
        else (nil_slice, h)) = (s1, h1)"
      "contents h1 s1 = (if StartTime cfg \<noteq> [] then [''-ss'', StartTime cfg] else [])"
      "owned ?b h1 s1" "?b \<le> length h1" "take ?b h1 = h"
  proof (cases "StartTime cfg \<noteq> []")
    case True
    from append_slice_owned [OF owned_nil, of ?b h "[''-ss'', StartTime cfg]" grow] True that
    show ?thesis by (auto simp: contents_nil)
  next
    case False
    with that show ?thesis by (simp add: contents_nil owned_nil)
  qed
  obtain s2 h2 where s2:
      "(if EndTime cfg \<noteq> [] then append_slice grow h1 s1 [''-to'', EndTime cfg]
        else (s1, h1)) = (s2, h2)"
      "contents h2 s2 = contents h1 s1 @ (if EndTime cfg \<noteq> [] then [''-to'', EndTime cfg] else [])"
      "owned ?b h2 s2" "?b \<le> length h2" "take ?b h2 = h"
  proof (cases "EndTime cfg \<noteq> []")
    case True
    from append_slice_owned [OF s1(3) s1(4), of "[''-to'', EndTime cfg]" grow] True s1(5) that
    show ?thesis by auto
  next
    case False
    with s1 that show ?thesis by simp
  qed
  from append_slice_owned [OF s2(3) s2(4), of "[''-i'', InputFile cfg]" grow]
  obtain s3 h3 where s3: "append_slice grow h2 s2 [''-i'', InputFile cfg] = (s3, h3)"
      "contents h3 s3 = contents h2 s2 @ [''-i'', InputFile cfg]"
      "owned ?b h3 s3" "0 < scap s3" "sptr s3 < length h3" "?b \<le> length h3"
      "take ?b h3 = take ?b h2"
    by auto
  have "getInputArgs_heap grow cfg h = (s3, h3)"
    using s1(1) s2(1) s3(1) by (simp add: getInputArgs_heap_def)
  moreover have "contents h3 s3 = getInputArgs cfg"
    using s1(2) s2(2) s3(2) by (simp add: getInputArgs_def)
  ultimately show ?thesis
    using s3 s2(5) by simp
qed

text \<open>An array that is not written keeps the slices on it as they are.\<close>

lemma contents_frame: "h' ! sptr s = h ! sptr s \<Longrightarrow> contents h' s = contents h s"
  by (simp add: contents_def)

lemma owned_frame:
  "owned base h s \<Longrightarrow> length h \<le> length h' \<Longrightarrow> h' ! sptr s = h ! sptr s \<Longrightarrow> owned base h' s"
  by (auto simp: owned_def)

text \<open>
  The builder of \<^verbatim>\<open>simpleCut\<close> on slices returns a slice with the list of
  \<^verbatim>\<open>simpleCut_args\<close>. The slice \<^verbatim>\<open>filters\<close> is allocated after \<^verbatim>\<open>inputArgs\<close>, so the
  \<^verbatim>\<open>append\<close> to \<^verbatim>\<open>inputArgs\<close>, in place or not, leaves it as it is.
\<close>

lemma simpleCut_heap_owned:
  "\<exists>s' h'. simpleCut_heap grow cfg h = (s', h') \<and>
     contents h' s' = simpleCut_args cfg \<and>
     length h \<le> length h' \<and> take (length h) h' = h"
proof -
  let ?b = "length h"
  let ?mute = "MuteStart cfg \<noteq> [] \<and> MuteEnd cfg \<noteq> []"
  let ?tok = "''volume=0:enable='between(t,'' @ Sprintf_3f (parseTimeToSeconds (MuteStart cfg)) @
     '','' @ Sprintf_3f (parseTimeToSeconds (MuteEnd cfg)) @ '')'' @ [CHR 0x27]"
  let ?codec = "[''-c:v'', ''libx264'', ''-preset'', Preset cfg, ''-crf'', Itoa (CRF cfg),
     ''-c:a'', ''aac'', ''-b:a'', ''192k'']"
  from getInputArgs_heap_owned [of grow cfg h]
  obtain s0 h0 where s0: "getInputArgs_heap grow cfg h = (s0, h0)"
      "contents h0 s0 = getInputArgs cfg" "owned ?b h0 s0" "0 < scap s0"
      "sptr s0 < length h0" "?b \<le> length h0" "take ?b h0 = h"
    by auto
  obtain f h1 where f:
      "(if ?mute then append_slice grow h0 nil_slice [?tok] else (nil_slice, h0)) = (f, h1)"
      "contents h1 f = (if ?mute then [?tok] else [])"
      "(0 < slen f) = ?mute"
      "slen f = 0 \<or> sptr f < length h1 \<and> sptr f \<noteq> sptr s0 \<and> length h0 \<le> sptr f"
      "owned ?b h1 s0" "contents h1 s0 = getInputArgs cfg"
      "?b \<le> length h1" "take ?b h1 = h" "length h0 \<le> length h1"
  proof (cases ?mute)
    case True
    from append_slice_owned [OF owned_nil s0(6), of "[?tok]" grow]
    obtain f h1 where a: "append_slice grow h0 nil_slice [?tok] = (f, h1)"
        "contents h1 f = contents h0 nil_slice @ [?tok]" "0 < slen f" "sptr f < length h1"
        "?b \<le> length h1" "length h0 \<le> length h1" "take ?b h1 = take ?b h0"
        "sptr f = sptr nil_slice \<and> 0 < scap nil_slice \<or> sptr f = length h0"
        "\<forall>p < length h0. p \<noteq> sptr f \<longrightarrow> h1 ! p = h0 ! p"
      by blast
    from a(8) have ptr: "sptr f = length h0" by (simp add: nil_slice_def)
    with a(9) s0(5) have same: "h1 ! sptr s0 = h0 ! sptr s0" by simp
    show ?thesis
    proof (rule that [of f h1])
      show "(if ?mute then append_slice grow h0 nil_slice [?tok] else (nil_slice, h0)) = (f, h1)"
        using True a(1) by simp
      show "contents h1 f = (if ?mute then [?tok] else [])"
        using True a(2) by (simp add: contents_nil)
      show "(0 < slen f) = ?mute" using True a(3) by simp
      show "slen f = 0 \<or> sptr f < length h1 \<and> sptr f \<noteq> sptr s0 \<and> length h0 \<le> sptr f"
        using a(4) ptr s0(5) by simp
      show "owned ?b h1 s0" using owned_frame [OF s0(3) a(6) same] .
      show "contents h1 s0 = getInputArgs cfg" using contents_frame [OF same] s0(2) by simp
      show "?b \<le> length h1" by (rule a(5))
      show "take ?b h1 = h" using a(7) s0(7) by simp
      show "length h0 \<le> length h1" by (rule a(6))
    qed
  next
    case False
    show ?thesis
    proof (rule that [of nil_slice h0])
      show "(if ?mute then append_slice grow h0 nil_slice [?tok] else (nil_slice, h0)) =
            (nil_slice, h0)"
        by (rule if_not_P [OF False])
      show "contents h0 nil_slice = (if ?mute then [?tok] else [])"
        using False by (auto simp: contents_nil)
      show "(0 < slen nil_slice) = ?mute" using False by (auto simp: nil_slice_def)
      show "slen nil_slice = 0 \<or>
            sptr nil_slice < length h0 \<and> sptr nil_slice \<noteq> sptr s0 \<and> length h0 \<le> sptr nil_slice"
        by (simp add: nil_slice_def)
    qed (use s0 in simp_all)
  qed
  from append_slice_owned [OF f(5) f(7), of ?codec grow]
  obtain s2 h2 where s2: "append_slice grow h1 s0 ?codec = (s2, h2)"
      "contents h2 s2 = contents h1 s0 @ ?codec" "owned ?b h2 s2" "?b \<le> length h2"
      "take ?b h2 = take ?b h1" "sptr s2 = sptr s0 \<and> 0 < scap s0 \<or> sptr s2 = length h1"
      "\<forall>p < length h1. p \<noteq> sptr s2 \<longrightarrow> h2 ! p = h1 ! p"
    by blast
  have filters: "contents h2 f = contents h1 f"
  proof (cases "slen f = 0")
    case True
    then show ?thesis by (simp add: contents_def)
  next
    case False
    with f(4) have "sptr f < length h1" "sptr f \<noteq> sptr s0" by simp_all
    with s2(6) have "sptr f \<noteq> sptr s2" by auto
    with \<open>sptr f < length h1\<close> s2(7) have "h2 ! sptr f = h1 ! sptr f" by simp
    then show ?thesis by (rule contents_frame)
  qed
  obtain s3 h3 where s3:
      "(if 0 < slen f then append_slice grow h2 s2 [''-af'', Join (contents h2 f) '','']
        else (s2, h2)) = (s3, h3)"
      "contents h3 s3 = contents h2 s2 @ (if ?mute then [''-af'', ?tok] else [])"
      "owned ?b h3 s3" "?b \<le> length h3" "take ?b h3 = take ?b h2"
  proof (cases ?mute)
    case True
    from append_slice_owned [OF s2(3) s2(4), of "[''-af'', Join (contents h2 f) '','']" grow]
    obtain s3 h3 where a:
        "append_slice grow h2 s2 [''-af'', Join (contents h2 f) '',''] = (s3, h3)"
        "contents h3 s3 = contents h2 s2 @ [''-af'', Join (contents h2 f) '','']"
        "owned ?b h3 s3" "?b \<le> length h3" "take ?b h3 = take ?b h2"
      by blast
    have "Join (contents h2 f) '','' = ?tok"
      using True filters f(2) by simp
    with a True f(3) that [of s3 h3] show ?thesis by simp
  next
    case False
    with s2 f(3) that [of s2 h2] show ?thesis by auto
  qed
  from append_slice_owned [OF s3(3) s3(4), of "[''-y'', OutputFile cfg]" grow]
  obtain s4 h4 where s4: "append_slice grow h3 s3 [''-y'', OutputFile cfg] = (s4, h4)"
      "contents h4 s4 = contents h3 s3 @ [''-y'', OutputFile cfg]"
      "?b \<le> length h4" "take ?b h4 = take ?b h3"
    by blast
  have "simpleCut_heap grow cfg h = (s4, h4)"
    by (simp only: simpleCut_heap_def Let_def s0(1) f(1) s2(1) s3(1) s4(1) prod.case)
  moreover have "contents h4 s4 = simpleCut_args cfg"
    using s4(2) s3(2) s2(2) f(6) by (simp add: simpleCut_args_eq)
  moreover have "take ?b h4 = h"
    using s4(4) s3(5) s2(5) f(8) by simp
  ultimately show ?thesis
    using s4(3) by simp
qed

lemma getInputArgs_heap_contents:
  "contents (snd (getInputArgs_heap grow cfg h)) (fst (getInputArgs_heap grow cfg h)) =
     getInputArgs cfg"
  using getInputArgs_heap_owned [of grow cfg h] by auto

lemma getInputArgs_heap_frame:
  "take (length h) (snd (getInputArgs_heap grow cfg h)) = h"
  using getInputArgs_heap_owned [of grow cfg h] by auto

lemma simpleCut_heap_contents:
  "contents (snd (simpleCut_heap grow cfg h)) (fst (simpleCut_heap grow cfg h)) =
     simpleCut_args cfg"
  using simpleCut_heap_owned [of grow cfg h] by auto

lemma simpleCut_heap_frame:
  "take (length h) (snd (simpleCut_heap grow cfg h)) = h"
  using simpleCut_heap_owned [of grow cfg h] by auto

text \<open>
  Slices do share arrays in this model: two appends to one slice with room to spare
  write the same cell, and the slice of the first append reads what the second wrote.
\<close>

lemma append_slice_shares_array:
  "(let (s, h) = append_slice (\<lambda>c n. 16) [] nil_slice [''-i''];
        (t, h) = append_slice grow h s [''a.mp4''];
        (u, h) = append_slice grow h s [''b.mp4'']
    in contents h t) = [''-i'', ''b.mp4'']"
  by (simp add: append_slice_def nil_slice_def contents_def Let_def)

section \<open>The claims\<close>

subsection \<open>getInputArgs\<close>

text \<open>
  C8: in trim/mute mode \<^verbatim>\<open>getInputArgs\<close> produces the seek-start flag \<^verbatim>\<open>-ss\<close> and its
  value exactly when a start boundary is set, then the seek-end flag \<^verbatim>\<open>-to\<close> and its
  value exactly when an end boundary is set, then always the input flag \<^verbatim>\<open>-i\<close> and the
  input path, in this order.
\<close>

theorem getInputArgs_order:
  "getInputArgs cfg =
     (if StartTime cfg \<noteq> [] then [''-ss'', StartTime cfg] else []) @
     (if EndTime cfg \<noteq> [] then [''-to'', EndTime cfg] else []) @
     [''-i'', InputFile cfg]"
  by (simp add: getInputArgs_def)

subsection \<open>The default output path\<close>

text \<open>
  C3 (amended): for every input path, when no output path is given, the default output
  path is the input path with a suffix inserted before the extension (the extension
  \<^verbatim>\<open>filepath.Ext\<close> finds): \<^verbatim>\<open>_cleaned_muted\<close> when the mute-start boundary is not empty,
  whether or not a mute-end boundary is given, and \<^verbatim>\<open>_cleaned\<close> otherwise. The input
  \<^verbatim>\<open>a.mp4\<close> gives \<^verbatim>\<open>a_cleaned.mp4\<close> with no mute boundary and \<^verbatim>\<open>a_cleaned_muted.mp4\<close>
  with a mute-start boundary.
\<close>

theorem main_outputFile_default:
  "(outputPtr fl = [] \<longrightarrow>
      main_outputFile os fl =
        TrimSuffix (inputPtr fl) (Ext os (inputPtr fl)) @
        (if muteStartPtr fl \<noteq> [] then ''_cleaned_muted'' else ''_cleaned'') @
        Ext os (inputPtr fl) \<and>
      TrimSuffix (inputPtr fl) (Ext os (inputPtr fl)) @ Ext os (inputPtr fl) = inputPtr fl) \<and>
   main_outputFile os (flag_defaults\<lparr>inputPtr := ''a.mp4''\<rparr>) = ''a_cleaned.mp4'' \<and>
   main_outputFile os (flag_defaults\<lparr>inputPtr := ''a.mp4'', muteStartPtr := ms, muteEndPtr := me\<rparr>) =
     (if ms \<noteq> [] then ''a_cleaned_muted.mp4'' else ''a_cleaned.mp4'')"
  by (simp add: main_outputFile_def Let_def TrimSuffix_Ext flag_defaults_def Ext_a_mp4
      TrimSuffix_a_mp4)

theorem main_outputFile_default_witness:
  "outputPtr (flag_defaults\<lparr>inputPtr := ''clip.final.mkv'', muteStartPtr := ''00:06:00''\<rparr>) = [] \<and>
   main_outputFile Unix (flag_defaults\<lparr>inputPtr := ''clip.final.mkv'', muteStartPtr := ''00:06:00''\<rparr>) =
     ''clip.final_cleaned_muted.mkv''"
  using main_outputFile_default
    [of "flag_defaults\<lparr>inputPtr := ''clip.final.mkv'', muteStartPtr := ''00:06:00''\<rparr>" Unix]
  by (simp add: flag_defaults_def Ext_def TrimSuffix_def HasSuffix_def)

text \<open>
  The claim as it is written fails where only the mute-start boundary is given: no mute
  window is set, and the default name of \<^verbatim>\<open>a.mp4\<close> is \<^verbatim>\<open>a_cleaned_muted.mp4\<close>, not
  \<^verbatim>\<open>a_cleaned.mp4\<close>.
\<close>

theorem mute_suffix_without_window:
  "\<not> mute_window_set ''5'' [] \<and>
   outputPtr (flag_defaults\<lparr>inputPtr := ''a.mp4'', muteStartPtr := ''5''\<rparr>) = [] \<and>
   main_outputFile Unix (flag_defaults\<lparr>inputPtr := ''a.mp4'', muteStartPtr := ''5''\<rparr>) =
     ''a_cleaned_muted.mp4'' \<and>
   main_outputFile Unix (flag_defaults\<lparr>inputPtr := ''a.mp4'', muteStartPtr := ''5''\<rparr>) \<noteq>
     ''a_cleaned.mp4''"
  by (simp add: mute_window_set_def main_outputFile_def Let_def flag_defaults_def Ext_a_mp4
      TrimSuffix_a_mp4)

text \<open>
  C10: if the mute-start boundary is set and the mute-end boundary is empty, the default
  output name still gets the suffix \<^verbatim>\<open>_cleaned_muted\<close>, and the argument list has no
  audio filter: after the input arguments and the codec flags comes \<^verbatim>\<open>-y\<close> and the
  output path.
\<close>

theorem muted_name_without_filter:
  assumes "muteStartPtr fl \<noteq> []" and "muteEndPtr fl = []" and "outputPtr fl = []"
  shows "main_outputFile (GOOS e) fl =
           TrimSuffix (inputPtr fl) (Ext (GOOS e) (inputPtr fl)) @ ''_cleaned_muted'' @
           Ext (GOOS e) (inputPtr fl) \<and>
         simpleCut_args (main_cfg e fl) =
           getInputArgs (main_cfg e fl) @
           [''-c:v'', ''libx264'', ''-preset'', presetPtr fl, ''-crf'', Itoa (crfPtr fl),
            ''-c:a'', ''aac'', ''-b:a'', ''192k'', ''-y'', main_outputFile (GOOS e) fl]"
proof
  show "main_outputFile (GOOS e) fl =
           TrimSuffix (inputPtr fl) (Ext (GOOS e) (inputPtr fl)) @ ''_cleaned_muted'' @
           Ext (GOOS e) (inputPtr fl)"
    using assms by (simp add: main_outputFile_def Let_def)
  show "simpleCut_args (main_cfg e fl) =
           getInputArgs (main_cfg e fl) @
           [''-c:v'', ''libx264'', ''-preset'', presetPtr fl, ''-crf'', Itoa (crfPtr fl),
            ''-c:a'', ''aac'', ''-b:a'', ''192k'', ''-y'', main_outputFile (GOOS e) fl]"
    using assms by (simp add: simpleCut_args_eq main_cfg_def)
qed

theorem muted_name_without_filter_witness:
  "muteStartPtr (flag_defaults\<lparr>inputPtr := ''a.mp4'', muteStartPtr := ''5''\<rparr>) \<noteq> [] \<and>
   muteEndPtr (flag_defaults\<lparr>inputPtr := ''a.mp4'', muteStartPtr := ''5''\<rparr>) = [] \<and>
   outputPtr (flag_defaults\<lparr>inputPtr := ''a.mp4'', muteStartPtr := ''5''\<rparr>) = [] \<and>
   simpleCut_args (main_cfg (installation [] (\<lambda>name. None) Success)
       (flag_defaults\<lparr>inputPtr := ''a.mp4'', muteStartPtr := ''5''\<rparr>)) =
     [''-i'', ''a.mp4'', ''-c:v'', ''libx264'', ''-preset'', ''medium'', ''-crf'', ''23'',
      ''-c:a'', ''aac'', ''-b:a'', ''192k'', ''-y'', ''a_cleaned_muted.mp4'']"
proof -
  let ?fl = "flag_defaults\<lparr>inputPtr := ''a.mp4'', muteStartPtr := ''5''\<rparr>"
  let ?e = "installation [] (\<lambda>name. None) Success"
  have pre: "muteStartPtr ?fl \<noteq> []" "muteEndPtr ?fl = []" "outputPtr ?fl = []"
    by (simp_all add: flag_defaults_def)
  have "GOOS ?e = Unix"
    by (simp add: installation_def)
  moreover have "getInputArgs (main_cfg ?e ?fl) = [''-i'', ''a.mp4'']"
    by (simp add: getInputArgs_def main_cfg_def flag_defaults_def)
  moreover have "Itoa (crfPtr ?fl) = ''23''" "presetPtr ?fl = ''medium''" "inputPtr ?fl = ''a.mp4''"
    by (simp_all add: flag_defaults_def Itoa_def decimal.simps)
  ultimately show ?thesis
    using muted_name_without_filter [OF pre, of ?e] pre
    by (simp add: Ext_a_mp4 TrimSuffix_a_mp4)
qed

subsection \<open>The arguments of the encoder\<close>

text \<open>
  C9: the argument list is a function of the Configuration alone, with no dependence on
  shared mutable state. The builders work on slices in the heap. Two invocations on equal
  Configurations, whatever arrays the heap holds at either and however the runtime
  grows a backing array, return slices with equal elements, for \<^verbatim>\<open>getInputArgs\<close> and for
  \<^verbatim>\<open>simpleCut\<close>, the lists of \<^verbatim>\<open>getInputArgs\<close> and \<^verbatim>\<open>simpleCut_args\<close>; they leave every
  array that was there before as it was; and the list is the arguments of the command
  \<^verbatim>\<open>simpleCut\<close> starts, whatever the operating system answers and whatever has been
  printed or started before.
\<close>

theorem argument_list_deterministic:
  assumes "cfg1 = cfg2"
  shows "contents (snd (getInputArgs_heap grow1 cfg1 h1)) (fst (getInputArgs_heap grow1 cfg1 h1)) =
         contents (snd (getInputArgs_heap grow2 cfg2 h2)) (fst (getInputArgs_heap grow2 cfg2 h2)) \<and>
         contents (snd (simpleCut_heap grow1 cfg1 h1)) (fst (simpleCut_heap grow1 cfg1 h1)) =
         contents (snd (simpleCut_heap grow2 cfg2 h2)) (fst (simpleCut_heap grow2 cfg2 h2)) \<and>
         contents (snd (getInputArgs_heap grow1 cfg1 h1)) (fst (getInputArgs_heap grow1 cfg1 h1)) =
         getInputArgs cfg1 \<and>
         contents (snd (simpleCut_heap grow1 cfg1 h1)) (fst (simpleCut_heap grow1 cfg1 h1)) =
         simpleCut_args cfg1 \<and>
         take (length h1) (snd (getInputArgs_heap grow1 cfg1 h1)) = h1 \<and>
         take (length h2) (snd (getInputArgs_heap grow2 cfg2 h2)) = h2 \<and>
         take (length h1) (snd (simpleCut_heap grow1 cfg1 h1)) = h1 \<and>
         take (length h2) (snd (simpleCut_heap grow2 cfg2 h2)) = h2 \<and>
         started (snd (simpleCut e1 cfg1 w1)) =
           started w1 @
           [(FfmpegBin cfg1,
             contents (snd (simpleCut_heap grow1 cfg1 h1)) (fst (simpleCut_heap grow1 cfg1 h1)),
             Verbose cfg1)] \<and>
         started (snd (simpleCut e2 cfg2 w2)) =
           started w2 @
           [(FfmpegBin cfg2,
             contents (snd (simpleCut_heap grow2 cfg2 h2)) (fst (simpleCut_heap grow2 cfg2 h2)),
             Verbose cfg2)]"
  using assms
  by (simp add: getInputArgs_heap_contents simpleCut_heap_contents getInputArgs_heap_frame
      simpleCut_heap_frame simpleCut_def started_runFFmpeg)

text \<open>
  Two runs of the builder on the Configuration of \<^verbatim>\<open>mutecut -i a.mp4 -ss 5 -mute-start
  00:06:00 -mute-end 00:06:30\<close> with both binaries installed: one on an empty heap, where
  every array is allocated with no room to spare, so every \<^verbatim>\<open>append\<close> moves the list; one
  on a heap that holds an array already, where arrays are allocated with room for 16
  more elements, so \<^verbatim>\<open>append\<close> writes in place.
\<close>

theorem argument_list_deterministic_witness:
  "FfmpegBin (main_cfg
       (installation [''/opt/mutecut/bin/ffmpeg'', ''/opt/mutecut/bin/ffprobe'']
          (\<lambda>name. None) Success)
       (flag_defaults\<lparr>inputPtr := ''a.mp4'', startPtr := ''5'',
          muteStartPtr := ''00:06:00'', muteEndPtr := ''00:06:30''\<rparr>)) =
     ''/opt/mutecut/bin/ffmpeg'' \<and>
   contents
     (snd (simpleCut_heap (\<lambda>c n. 0)
        (main_cfg
           (installation [''/opt/mutecut/bin/ffmpeg'', ''/opt/mutecut/bin/ffprobe'']
              (\<lambda>name. None) Success)
           (flag_defaults\<lparr>inputPtr := ''a.mp4'', startPtr := ''5'',
              muteStartPtr := ''00:06:00'', muteEndPtr := ''00:06:30''\<rparr>)) []))
     (fst (simpleCut_heap (\<lambda>c n. 0)
        (main_cfg
           (installation [''/opt/mutecut/bin/ffmpeg'', ''/opt/mutecut/bin/ffprobe'']
              (\<lambda>name. None) Success)
           (flag_defaults\<lparr>inputPtr := ''a.mp4'', startPtr := ''5'',
              muteStartPtr := ''00:06:00'', muteEndPtr := ''00:06:30''\<rparr>)) [])) =
     [''-ss'', ''5'', ''-i'', ''a.mp4'', ''-c:v'', ''libx264'', ''-preset'', ''medium'',
      ''-crf'', ''23'', ''-c:a'', ''aac'', ''-b:a'', ''192k'', ''-af'',
      ''volume=0:enable='between(t,360.000,390.000)'' @ [CHR 0x27],
      ''-y'', ''a_cleaned_muted.mp4''] \<and>
   contents
     (snd (simpleCut_heap (\<lambda>c n. 16)
        (main_cfg
           (installation [''/opt/mutecut/bin/ffmpeg'', ''/opt/mutecut/bin/ffprobe'']
              (\<lambda>name. None) Success)
           (flag_defaults\<lparr>inputPtr := ''a.mp4'', startPtr := ''5'',
              muteStartPtr := ''00:06:00'', muteEndPtr := ''00:06:30''\<rparr>))
        [[''-i'', ''b.mp4'']]))
     (fst (simpleCut_heap (\<lambda>c n. 16)
        (main_cfg
           (installation [''/opt/mutecut/bin/ffmpeg'', ''/opt/mutecut/bin/ffprobe'']
              (\<lambda>name. None) Success)
           (flag_defaults\<lparr>inputPtr := ''a.mp4'', startPtr := ''5'',
              muteStartPtr := ''00:06:00'', muteEndPtr := ''00:06:30''\<rparr>))
        [[''-i'', ''b.mp4'']])) =
     [''-ss'', ''5'', ''-i'', ''a.mp4'', ''-c:v'', ''libx264'', ''-preset'', ''medium'',
      ''-crf'', ''23'', ''-c:a'', ''aac'', ''-b:a'', ''192k'', ''-af'',
      ''volume=0:enable='between(t,360.000,390.000)'' @ [CHR 0x27],
      ''-y'', ''a_cleaned_muted.mp4''] \<and>
   take 1
     (snd (simpleCut_heap (\<lambda>c n. 16)
        (main_cfg
           (installation [''/opt/mutecut/bin/ffmpeg'', ''/opt/mutecut/bin/ffprobe'']
              (\<lambda>name. None) Success)
           (flag_defaults\<lparr>inputPtr := ''a.mp4'', startPtr := ''5'',
              muteStartPtr := ''00:06:00'', muteEndPtr := ''00:06:30''\<rparr>))
        [[''-i'', ''b.mp4'']])) =
     [[''-i'', ''b.mp4'']] \<and>
   started (snd (simpleCut
       (installation [''/opt/mutecut/bin/ffmpeg'', ''/opt/mutecut/bin/ffprobe'']
          (\<lambda>name. None) Success)
       (main_cfg
          (installation [''/opt/mutecut/bin/ffmpeg'', ''/opt/mutecut/bin/ffprobe'']
             (\<lambda>name. None) Success)
          (flag_defaults\<lparr>inputPtr := ''a.mp4'', startPtr := ''5'',
             muteStartPtr := ''00:06:00'', muteEndPtr := ''00:06:30''\<rparr>))
       fresh_world)) =
     [(''/opt/mutecut/bin/ffmpeg'',
       [''-ss'', ''5'', ''-i'', ''a.mp4'', ''-c:v'', ''libx264'', ''-preset'', ''medium'',
        ''-crf'', ''23'', ''-c:a'', ''aac'', ''-b:a'', ''192k'', ''-af'',
        ''volume=0:enable='between(t,360.000,390.000)'' @ [CHR 0x27],
        ''-y'', ''a_cleaned_muted.mp4''],
       False)]"
proof -
  let ?e = "installation [''/opt/mutecut/bin/ffmpeg'', ''/opt/mutecut/bin/ffprobe'']
      (\<lambda>name. None) Success"
  let ?cfg = "main_cfg ?e
      (flag_defaults\<lparr>inputPtr := ''a.mp4'', startPtr := ''5'',
         muteStartPtr := ''00:06:00'', muteEndPtr := ''00:06:30''\<rparr>)"
  let ?args = "[''-ss'', ''5'', ''-i'', ''a.mp4'', ''-c:v'', ''libx264'', ''-preset'', ''medium'',
      ''-crf'', ''23'', ''-c:a'', ''aac'', ''-b:a'', ''192k'', ''-af'',
      ''volume=0:enable='between(t,360.000,390.000)'' @ [CHR 0x27],
      ''-y'', ''a_cleaned_muted.mp4'']"
  have bin: "FfmpegBin ?cfg = ''/opt/mutecut/bin/ffmpeg''"
    using installation_binaries [of "\<lambda>name. None" Success] by (simp add: main_cfg_def)
  have fields: "MuteStart ?cfg = ''00:06:00''" "MuteEnd ?cfg = ''00:06:30''"
    "Preset ?cfg = ''medium''" "Itoa (CRF ?cfg) = ''23''"
    "OutputFile ?cfg = ''a_cleaned_muted.mp4''" "getInputArgs ?cfg = [''-ss'', ''5'', ''-i'', ''a.mp4'']"
    "Verbose ?cfg = False"
    by (simp_all add: main_cfg_def flag_defaults_def installation_def main_outputFile_def
        Let_def Ext_a_mp4 TrimSuffix_a_mp4 Itoa_def decimal.simps getInputArgs_def)
  have args: "simpleCut_args ?cfg = ?args"
    by (simp add: simpleCut_args_eq fields parseTimeToSeconds_examples Sprintf_3f_examples)
  have len: "length [[''-i'', ''b.mp4'']] = 1"
    by simp
  note inst = argument_list_deterministic
    [OF refl, of "\<lambda>c n. 0" ?cfg "[]" "\<lambda>c n. 16" "[[''-i'', ''b.mp4'']]" ?e fresh_world ?e fresh_world]
  from inst have "contents (snd (simpleCut_heap (\<lambda>c n. 0) ?cfg []))
      (fst (simpleCut_heap (\<lambda>c n. 0) ?cfg [])) = simpleCut_args ?cfg"
    by blast
  then have one: "contents (snd (simpleCut_heap (\<lambda>c n. 0) ?cfg []))
      (fst (simpleCut_heap (\<lambda>c n. 0) ?cfg [])) = ?args"
    by (simp only: args)
  from inst have "contents (snd (simpleCut_heap (\<lambda>c n. 0) ?cfg []))
      (fst (simpleCut_heap (\<lambda>c n. 0) ?cfg [])) =
      contents (snd (simpleCut_heap (\<lambda>c n. 16) ?cfg [[''-i'', ''b.mp4'']]))
      (fst (simpleCut_heap (\<lambda>c n. 16) ?cfg [[''-i'', ''b.mp4'']]))"
    by blast
  then have two: "contents (snd (simpleCut_heap (\<lambda>c n. 16) ?cfg [[''-i'', ''b.mp4'']]))
      (fst (simpleCut_heap (\<lambda>c n. 16) ?cfg [[''-i'', ''b.mp4'']])) = ?args"
    by (simp only: one [symmetric])
  from inst have "take (length [[''-i'', ''b.mp4'']])
      (snd (simpleCut_heap (\<lambda>c n. 16) ?cfg [[''-i'', ''b.mp4'']])) = [[''-i'', ''b.mp4'']]"
    by blast
  then have three: "take 1 (snd (simpleCut_heap (\<lambda>c n. 16) ?cfg [[''-i'', ''b.mp4'']])) =
      [[''-i'', ''b.mp4'']]"
    by (simp only: len)
  from inst have "started (snd (simpleCut ?e ?cfg fresh_world)) =
      started fresh_world @
      [(FfmpegBin ?cfg,
        contents (snd (simpleCut_heap (\<lambda>c n. 0) ?cfg [])) (fst (simpleCut_heap (\<lambda>c n. 0) ?cfg [])),
        Verbose ?cfg)]"
    by blast
  then have four: "started (snd (simpleCut ?e ?cfg fresh_world)) =
      [(''/opt/mutecut/bin/ffmpeg'', ?args, False)]"
    by (simp only: one bin fields fresh_world_def world.simps append_Nil)
  from bin one two three four show ?thesis by blast
qed

subsection \<open>Extracting the audio\<close>



subsection \<open>Finding the binaries\<close>

text \<open>
  C6: for every tool name \<^verbatim>\<open>resolveBinary\<close> returns the first existing path in the order:
  the \<^verbatim>\<open>bin\<close> directory next to the running executable, then the \<^verbatim>\<open>bin\<close> directory under
  the working directory (at each the bare name, then the name with \<^verbatim>\<open>.exe\<close>), then what
  the system search path gives; when none of them exists it returns the empty string.
\<close>

theorem resolveBinary_search_order:
  "resolveBinary e name = first_existing e name \<and>
   ((\<forall>path \<in> set (bin_candidates e name). \<not> Stat e path) \<and> LookPath e name = None \<longrightarrow>
      resolveBinary e name = [])"
proof -
  have eq: "resolveBinary e name = first_existing e name"
    by (simp add: resolveBinary_def first_existing_def bin_candidates_def Let_def
        split: option.splits)
  have "List.find (Stat e) (bin_candidates e name) = None"
    if "\<forall>path \<in> set (bin_candidates e name). \<not> Stat e path"
    using that by (simp add: find_None_iff)
  then show ?thesis
    using eq by (simp add: first_existing_def)
qed

theorem resolveBinary_search_order_witness:
  "bin_candidates (installation [] (\<lambda>name. None) Success) ''ffmpeg'' =
     [''/opt/mutecut/bin/ffmpeg'', ''/opt/mutecut/bin/ffmpeg.exe'',
      ''/home/user/bin/ffmpeg'', ''/home/user/bin/ffmpeg.exe''] \<and>
   \<not> (\<exists>path \<in> set (bin_candidates (installation [] (\<lambda>name. None) Success) ''ffmpeg'').
        Stat (installation [] (\<lambda>name. None) Success) path) \<and>
   LookPath (installation [] (\<lambda>name. None) Success) ''ffmpeg'' = None \<and>
   resolveBinary (installation [] (\<lambda>name. None) Success) ''ffmpeg'' = [] \<and>
   resolveBinary (installation [''/home/user/bin/ffmpeg'', ''/opt/mutecut/bin/ffmpeg.exe'']
      (\<lambda>name. Some ''/usr/bin/ffmpeg'') Success) ''ffmpeg'' = ''/opt/mutecut/bin/ffmpeg.exe''"
  using resolveBinary_search_order [of "installation [] (\<lambda>name. None) Success" "''ffmpeg''"]
    resolveBinary_search_order [of "installation [''/home/user/bin/ffmpeg'', ''/opt/mutecut/bin/ffmpeg.exe'']
      (\<lambda>name. Some ''/usr/bin/ffmpeg'') Success" "''ffmpeg''"]
  by (simp add: installation_def first_existing_def bin_candidates_def)

subsection \<open>A failing encoder\<close>

text \<open>
  C7 (amended): when the encoder process exits with a non-zero status, \<^verbatim>\<open>runFFmpeg\<close>
  prints the failure with the encoder's exit status in the message and ends the
  process at once with exit status 1, whatever the encoder's status was; \<^verbatim>\<open>main\<close> has
  then started the encoder once, prints nothing after the error line and exits with
  status 1. Nothing is retried.
\<close>

theorem encoder_failure_exits_1:
  assumes "\<forall>args. Run e (resolveBinary e ''ffmpeg'') args = ExitError code"
    and "resolveBinary e ''ffmpeg'' \<noteq> []"
    and "resolveBinary e ''ffprobe'' \<noteq> []"
  shows "runFFmpeg e (main_cfg e fl) args w =
     (Exits 1,
      w\<lparr>started := started w @ [(resolveBinary e ''ffmpeg'', args, verbosePtr fl)],
        stdout := stdout w @ ['' FFmpeg Error: exit status '' @ Itoa code @ [CHR 0x0A]]\<rparr>) \<and>
   main_from_input e fl w =
     (Exits 1,
      w\<lparr>made_dirs := made_dirs w @ [filepath_Dir e (main_outputFile (GOOS e) fl)],
        stdout := stdout w @ [''Mode: Processing (Cut/Mute)...'' @ [CHR 0x0A]] @
          (if mp3Ptr fl then
             [''Extracting MP3 to: '' @ extractAudio_output (GOOS e) (main_cfg e fl) @ [CHR 0x0A]]
           else []) @
          ['' FFmpeg Error: exit status '' @ Itoa code @ [CHR 0x0A]],
        started := started w @
          [(resolveBinary e ''ffmpeg'',
            if mp3Ptr fl then extractAudio_args (GOOS e) (main_cfg e fl)
            else simpleCut_args (main_cfg e fl),
            verbosePtr fl)]\<rparr>)"
proof
  have "Run e (FfmpegBin (main_cfg e fl)) args = ExitError code"
    using assms(1) by (simp add: main_cfg_def)
  from runFFmpeg_ExitError [OF this, of w]
  show "runFFmpeg e (main_cfg e fl) args w =
     (Exits 1,
      w\<lparr>started := started w @ [(resolveBinary e ''ffmpeg'', args, verbosePtr fl)],
        stdout := stdout w @ ['' FFmpeg Error: exit status '' @ Itoa code @ [CHR 0x0A]]\<rparr>)"
    by (simp add: main_cfg_def)
qed (rule main_from_input_ExitError [OF assms])

theorem encoder_failure_exits_1_witness:
  "(\<forall>args. Run (installation [''/opt/mutecut/bin/ffmpeg'', ''/opt/mutecut/bin/ffprobe'']
               (\<lambda>name. None) (ExitError 2))
       (resolveBinary (installation [''/opt/mutecut/bin/ffmpeg'', ''/opt/mutecut/bin/ffprobe'']
               (\<lambda>name. None) (ExitError 2)) ''ffmpeg'') args = ExitError 2) \<and>
   resolveBinary (installation [''/opt/mutecut/bin/ffmpeg'', ''/opt/mutecut/bin/ffprobe'']
      (\<lambda>name. None) (ExitError 2)) ''ffmpeg'' = ''/opt/mutecut/bin/ffmpeg'' \<and>
   resolveBinary (installation [''/opt/mutecut/bin/ffmpeg'', ''/opt/mutecut/bin/ffprobe'']
      (\<lambda>name. None) (ExitError 2)) ''ffprobe'' = ''/opt/mutecut/bin/ffprobe'' \<and>
   fst (main_from_input
     (installation [''/opt/mutecut/bin/ffmpeg'', ''/opt/mutecut/bin/ffprobe''] (\<lambda>name. None)
        (ExitError 2))
     (flag_defaults\<lparr>inputPtr := ''a.mp4''\<rparr>) fresh_world) = Exits 1"
proof -
  let ?e = "installation [''/opt/mutecut/bin/ffmpeg'', ''/opt/mutecut/bin/ffprobe'']
              (\<lambda>name. None) (ExitError 2)"
  have run: "\<forall>args. Run ?e (resolveBinary ?e ''ffmpeg'') args = ExitError 2"
    by (simp add: installation_def)
  have bins: "resolveBinary ?e ''ffmpeg'' \<noteq> []" "resolveBinary ?e ''ffprobe'' \<noteq> []"
    by (simp_all add: installation_binaries)
  from encoder_failure_exits_1 [OF run bins] run show ?thesis
    by (simp add: installation_binaries)
qed

theorem exit_status_not_propagated:
  "Run (installation [''/opt/mutecut/bin/ffmpeg'', ''/opt/mutecut/bin/ffprobe''] (\<lambda>name. None)
        (ExitError 2)) ''/opt/mutecut/bin/ffmpeg'' [''-i'', ''a.mp4''] = ExitError 2 \<and>
   fst (main_from_input
     (installation [''/opt/mutecut/bin/ffmpeg'', ''/opt/mutecut/bin/ffprobe''] (\<lambda>name. None)
        (ExitError 2))
     (flag_defaults\<lparr>inputPtr := ''a.mp4''\<rparr>) fresh_world) = Exits 1 \<and>
   Exits 1 \<noteq> Exits 2"
proof -
  let ?e = "installation [''/opt/mutecut/bin/ffmpeg'', ''/opt/mutecut/bin/ffprobe'']
              (\<lambda>name. None) (ExitError 2)"
  have run: "\<forall>args. Run ?e (resolveBinary ?e ''ffmpeg'') args = ExitError 2"
    by (simp add: installation_def)
  have bins: "resolveBinary ?e ''ffmpeg'' \<noteq> []" "resolveBinary ?e ''ffprobe'' \<noteq> []"
    by (simp_all add: installation_binaries)
  have "Run ?e ''/opt/mutecut/bin/ffmpeg'' [''-i'', ''a.mp4''] = ExitError 2"
    by (simp add: installation_def)
  with main_from_input_ExitError [OF run bins] show ?thesis
    by simp
qed

subsection \<open>Parsing timestamps\<close>

text \<open>
  C1: \<^verbatim>\<open>parseTimeToSeconds\<close> returns 90.0 for \<^verbatim>\<open>"90"\<close>, 90.0 for \<^verbatim>\<open>"01:30"\<close> and 3600.0
  for \<^verbatim>\<open>"01:00:00"\<close>.
\<close>

theorem parseTimeToSeconds_values:
  "parseTimeToSeconds ''90'' = Finite 90 \<and>
   parseTimeToSeconds ''01:30'' = Finite 90 \<and>
   parseTimeToSeconds ''01:00:00'' = Finite 3600"
  by (simp add: parseTimeToSeconds_examples)

text \<open>
  C5 (amended): \<^verbatim>\<open>parseTimeToSeconds\<close> returns a float64 for every string and has no
  error result. If \<^verbatim>\<open>ParseFloat\<close> accepts the whole string, its value is returned
  unchanged. Otherwise the string is split on \<^verbatim>\<open>:\<close> and the segments are summed from the
  right in float64 arithmetic, the rightmost weighted by 1, the next by 60, the next by
  3600, the weight multiplied by 60 at each step. A segment with a syntax error is read as
  \<open>+0\<close>, so it adds zero as long as its weight is finite; a well-formed segment that is too
  large for a float64 is read as an infinity, not as zero; and at segment 175 from the
  right and beyond the weight is the infinity, where a segment read as zero gives the term
  NaN, which makes the sum a NaN.
\<close>

theorem parseTimeToSeconds_contract:
  "parseTimeToSeconds ts =
     (case ParseFloat ts of
        (val, None) \<Rightarrow> val
      | (_, Some err) \<Rightarrow> weighted_sum (Split ts (CHR '':''))) \<and>
   weight 0 = Finite 1 \<and> weight 1 = Finite 60 \<and> weight 2 = Finite 3600 \<and>
   (snd (ParseFloat seg) = Some ErrSyntax \<longrightarrow> fst (ParseFloat seg) = Finite 0) \<and>
   (snd (ParseFloat seg) = Some ErrRange \<longrightarrow>
      fst (ParseFloat seg) = PosInf \<or> fst (ParseFloat seg) = NegInf) \<and>
   (weight k \<noteq> PosInf \<longrightarrow> fmul (Finite 0) (weight k) = Finite 0) \<and>
   (175 \<le> k \<longrightarrow> weight k = PosInf \<and> fmul (Finite 0) (weight k) = NaN) \<and>
   fadd seconds NaN = NaN \<and> foldl fadd NaN terms = NaN"
proof -
  have "fmul (Finite 0) (weight k) = NaN" if "175 \<le> k"
    using weight_overflow [OF that] by (simp add: fmul_def)
  then show ?thesis
    using parseTimeToSeconds_sum [of ts] weight_small ParseFloat_error_value [of seg]
      fmul_zero_weight [of k] weight_overflow [of k] fadd_NaN [of seconds]
      foldl_fadd_NaN [of terms]
    by blast
qed

theorem parseTimeToSeconds_contract_witness:
  "snd (ParseFloat ''01:30'') = Some ErrSyntax \<and> fst (ParseFloat ''01:30'') = Finite 0 \<and>
   parseTimeToSeconds ''01:30'' = weighted_sum [''01'', ''30''] \<and>
   snd (ParseFloat ''1e309'') = Some ErrRange \<and> fst (ParseFloat ''1e309'') = PosInf \<and>
   weight 1 \<noteq> PosInf \<and> fmul (Finite 0) (weight 1) = Finite 0 \<and>
   (175::nat) \<le> 175 \<and> fmul (Finite 0) (weight 175) = NaN"
proof -
  note t1 = parseTimeToSeconds_contract [of "''01:30''" "''01:30''" 1]
  note t175 = parseTimeToSeconds_contract [of "''01:30''" "''1e309''" 175]
  have err: "snd (ParseFloat ''01:30'') = Some ErrSyntax"
    by (simp add: ParseFloat_timestamps)
  have range: "snd (ParseFloat ''1e309'') = Some ErrRange" "fst (ParseFloat ''1e309'') \<noteq> NegInf"
    by (simp_all add: ParseFloat_1e309)
  from t1 have "parseTimeToSeconds ''01:30'' =
      (case ParseFloat ''01:30'' of
         (val, None) \<Rightarrow> val
       | (_, Some err) \<Rightarrow> weighted_sum (Split ''01:30'' (CHR '':'')))"
    by blast
  then have sum: "parseTimeToSeconds ''01:30'' = weighted_sum [''01'', ''30'']"
    by (simp add: ParseFloat_timestamps)
  from t1 have "weight 1 = Finite 60" by blast
  then have finite: "weight 1 \<noteq> PosInf" by (simp only: float64.distinct not_False_eq_True)
  have le: "(175::nat) \<le> 175" by simp
  from t1 t175 err range sum finite le show ?thesis by blast
qed

text \<open>
  The claim as it is written fails on a segment that is a number too large for a
  float64: \<^verbatim>\<open>ParseFloat\<close> returns an error for \<^verbatim>\<open>"1e309"\<close>, and the seconds are the
  infinity, not zero. It also fails on 176 empty segments: none parses, and the seconds
  are a NaN, not zero.
\<close>

theorem unparsed_segment_not_zero:
  "snd (ParseFloat ''1e309'') = Some ErrRange \<and>
   parseTimeToSeconds ''1e309'' = PosInf \<and> claimed_seconds ''1e309'' = Finite 0 \<and>
   snd (ParseFloat []) = Some ErrSyntax \<and>
   parseTimeToSeconds (replicate 175 (CHR '':'')) = NaN \<and>
   claimed_seconds (replicate 175 (CHR '':'')) = Finite 0"
  by (simp add: ParseFloat_1e309 parseTimeToSeconds_1e309 claimed_seconds_1e309
      ParseFloat_empty parseTimeToSeconds_colons claimed_seconds_colons)

subsection \<open>The mute filter\<close>

text \<open>
  C2 (amended): whenever a mute window is present in the Configuration (both the
  mute-start and the mute-end string are non-empty), the argument list built by
  \<^verbatim>\<open>simpleCut\<close> has, after the codec flags, the flag \<^verbatim>\<open>-af\<close> and the filter
  \<^verbatim>\<open>volume=0:enable='between(t,<start>,<end>)'\<close>, where \<^verbatim>\<open><start>\<close> and \<^verbatim>\<open><end>\<close> are the
  parsed second offsets of the two boundaries printed with three decimals. The two
  offsets are not compared: the start may be greater than the end.
\<close>

theorem mute_filter_token:
  assumes "mute_window_set (MuteStart cfg) (MuteEnd cfg)"
  shows "simpleCut_args cfg =
     getInputArgs cfg @
     [''-c:v'', ''libx264'', ''-preset'', Preset cfg, ''-crf'', Itoa (CRF cfg),
      ''-c:a'', ''aac'', ''-b:a'', ''192k'', ''-af'',
      ''volume=0:enable='between(t,'' @ Sprintf_3f (parseTimeToSeconds (MuteStart cfg)) @
      '','' @ Sprintf_3f (parseTimeToSeconds (MuteEnd cfg)) @ '')'' @ [CHR 0x27],
      ''-y'', OutputFile cfg]"
  using assms by (simp add: simpleCut_args_eq mute_window_set_def)

theorem mute_filter_token_witness:
  "mute_window_set ''00:06:00'' ''00:06:30'' \<and>
   simpleCut_args (main_cfg (installation [] (\<lambda>name. None) Success)
       (flag_defaults\<lparr>inputPtr := ''a.mp4'', muteStartPtr := ''00:06:00'',
          muteEndPtr := ''00:06:30''\<rparr>)) =
     [''-i'', ''a.mp4'', ''-c:v'', ''libx264'', ''-preset'', ''medium'', ''-crf'', ''23'',
      ''-c:a'', ''aac'', ''-b:a'', ''192k'', ''-af'',
      ''volume=0:enable='between(t,360.000,390.000)'' @ [CHR 0x27],
      ''-y'', ''a_cleaned_muted.mp4'']"
proof -
  let ?cfg = "main_cfg (installation [] (\<lambda>name. None) Success)
       (flag_defaults\<lparr>inputPtr := ''a.mp4'', muteStartPtr := ''00:06:00'',
          muteEndPtr := ''00:06:30''\<rparr>)"
  have fields: "MuteStart ?cfg = ''00:06:00''" "MuteEnd ?cfg = ''00:06:30''"
    "Preset ?cfg = ''medium''" "Itoa (CRF ?cfg) = ''23''"
    "OutputFile ?cfg = ''a_cleaned_muted.mp4''" "getInputArgs ?cfg = [''-i'', ''a.mp4'']"
    by (simp_all add: main_cfg_def flag_defaults_def installation_def main_outputFile_def
        Let_def Ext_a_mp4 TrimSuffix_a_mp4 Itoa_def decimal.simps getInputArgs_def)
  have window: "mute_window_set (MuteStart ?cfg) (MuteEnd ?cfg)"
    by (simp add: fields mute_window_set_def)
  from mute_filter_token [OF window] window show ?thesis
    by (simp add: fields parseTimeToSeconds_examples Sprintf_3f_examples)
qed

text \<open>
  The claim as it is written fails where the mute window ends before it starts: with
  mute-start \<^verbatim>\<open>"20"\<close> and mute-end \<^verbatim>\<open>"10"\<close> the filter is built, and the parsed start is
  not less than the parsed end.
\<close>

theorem mute_window_not_ordered:
  "mute_window_set ''20'' ''10'' \<and>
   parseTimeToSeconds ''20'' = Finite 20 \<and> parseTimeToSeconds ''10'' = Finite 10 \<and>
   \<not> fless (parseTimeToSeconds ''20'') (parseTimeToSeconds ''10'') \<and>
   simpleCut_args (main_cfg (installation [] (\<lambda>name. None) Success)
       (flag_defaults\<lparr>inputPtr := ''a.mp4'', muteStartPtr := ''20'', muteEndPtr := ''10''\<rparr>)) =
     [''-i'', ''a.mp4'', ''-c:v'', ''libx264'', ''-preset'', ''medium'', ''-crf'', ''23'',
      ''-c:a'', ''aac'', ''-b:a'', ''192k'', ''-af'',
      ''volume=0:enable='between(t,20.000,10.000)'' @ [CHR 0x27],
      ''-y'', ''a_cleaned_muted.mp4'']"
proof -
  let ?cfg = "main_cfg (installation [] (\<lambda>name. None) Success)
       (flag_defaults\<lparr>inputPtr := ''a.mp4'', muteStartPtr := ''20'', muteEndPtr := ''10''\<rparr>)"
  have fields: "MuteStart ?cfg = ''20''" "MuteEnd ?cfg = ''10''"
    "Preset ?cfg = ''medium''" "Itoa (CRF ?cfg) = ''23''"
    "OutputFile ?cfg = ''a_cleaned_muted.mp4''" "getInputArgs ?cfg = [''-i'', ''a.mp4'']"
    by (simp_all add: main_cfg_def flag_defaults_def installation_def main_outputFile_def
        Let_def Ext_a_mp4 TrimSuffix_a_mp4 Itoa_def decimal.simps getInputArgs_def)
  show ?thesis
    by (simp add: simpleCut_args_eq fields parseTimeToSeconds_examples Sprintf_3f_examples
        mute_window_set_def fless_def)
qed

end
